theory Spec2Isabelle
  imports Complex_Main
begin

unbundle bit_operations_syntax

section \<open>Data model\<close>

text \<open>
  Go's \<^verbatim>\<open>int\<close> is modelled as \<^typ>\<open>int\<close>; the places where the 64-bit range matters
  (\<^verbatim>\<open>strconv.Atoi\<close>, the shift in \<^verbatim>\<open>abs\<close>) say so. A \<^verbatim>\<open>[]byte\<close> and a Go
  \<^verbatim>\<open>string\<close> are both byte sequences: \<^typ>\<open>string\<close>. A \<^verbatim>\<open>float64\<close> is a
  \<^typ>\<open>real\<close> (rounding is not modelled; no property below depends on it).
\<close>

text \<open>Errors are values. \<open>Wrap\<close> is \<^verbatim>\<open>fmt.Errorf("%w: ...", err)\<close>, \<open>Panic\<close> a run-time
  panic (nil dereference, index out of range), \<open>OutOfFuel\<close> a recursion that did not finish
  within the bound given to the model (the Go code has no such bound).\<close>

datatype error =
    EOF
  | ErrUnexpectedEOF
  | Errorf string
  | Wrap error string
  | Panic string
  | OutOfFuel

text \<open>The constants of \<^verbatim>\<open>const.go\<close> (\<^verbatim>\<open>iota\<close> from 0).\<close>

definition PDFTypeNull :: int where "PDFTypeNull = 0"
definition PDFTypeNumeric :: int where "PDFTypeNumeric = 1"
definition PDFTypeToken :: int where "PDFTypeToken = 2"
definition PDFTypeHex :: int where "PDFTypeHex = 3"
definition PDFTypeString :: int where "PDFTypeString = 4"
definition PDFTypeDictionary :: int where "PDFTypeDictionary = 5"
definition PDFTypeArray :: int where "PDFTypeArray = 6"
definition PDFTypeObjDec :: int where "PDFTypeObjDec = 7"
definition PDFTypeObjRef :: int where "PDFTypeObjRef = 8"
definition PDFTypeObject :: int where "PDFTypeObject = 9"
definition PDFTypeStream :: int where "PDFTypeStream = 10"
definition PDFTypeBoolean :: int where "PDFTypeBoolean = 11"
definition PDFTypeReal :: int where "PDFTypeReal = 12"

lemmas PDFType_defs =
  PDFTypeNull_def PDFTypeNumeric_def PDFTypeToken_def PDFTypeHex_def PDFTypeString_def
  PDFTypeDictionary_def PDFTypeArray_def PDFTypeObjDec_def PDFTypeObjRef_def
  PDFTypeObject_def PDFTypeStream_def PDFTypeBoolean_def PDFTypeReal_def

text \<open>
  \<^verbatim>\<open>type PdfValue struct\<close>: one struct with a \<^verbatim>\<open>Type\<close> tag and every field, as in the
  source (the code reads fields whatever the tag is, so the zero values matter). Pointer
  fields are options (\<open>None\<close> is \<^verbatim>\<open>nil\<close>); the \<^verbatim>\<open>Dictionary\<close> map is an association
  list with distinct keys, whose order stands for the order in which Go happens to
  iterate the map. The selectors are the field names with a leading \<open>v\<close>.
\<close>

datatype PdfValue = PdfValue
  (vType: int) (vString: string) (vToken: string) (vInt: int) (vReal: real) (vBool: bool)
  (vDictionary: "(string \<times> PdfValue) list") (vArray: "PdfValue list")
  (vID: int) (vNewID: int) (vGen: int)
  (vValue: "PdfValue option") (vStream: "PdfValue option") (vBytes: string)

text \<open>\<^verbatim>\<open>&PdfValue{}\<close>: every field at its zero value.\<close>

definition PdfValue0 :: PdfValue where
  "PdfValue0 = PdfValue 0 [] [] 0 0 False [] [] 0 0 0 None None []"

text \<open>Field assignments \<^verbatim>\<open>v.Field = x\<close>.\<close>

fun set_Type :: "int \<Rightarrow> PdfValue \<Rightarrow> PdfValue" where
  "set_Type x (PdfValue ty s tk i r b d a oid nid g v st bs) = PdfValue x s tk i r b d a oid nid g v st bs"
fun set_String :: "string \<Rightarrow> PdfValue \<Rightarrow> PdfValue" where
  "set_String x (PdfValue ty s tk i r b d a oid nid g v st bs) = PdfValue ty x tk i r b d a oid nid g v st bs"
fun set_Token :: "string \<Rightarrow> PdfValue \<Rightarrow> PdfValue" where
  "set_Token x (PdfValue ty s tk i r b d a oid nid g v st bs) = PdfValue ty s x i r b d a oid nid g v st bs"
fun set_Int :: "int \<Rightarrow> PdfValue \<Rightarrow> PdfValue" where
  "set_Int x (PdfValue ty s tk i r b d a oid nid g v st bs) = PdfValue ty s tk x r b d a oid nid g v st bs"
fun set_Real :: "real \<Rightarrow> PdfValue \<Rightarrow> PdfValue" where
  "set_Real x (PdfValue ty s tk i r b d a oid nid g v st bs) = PdfValue ty s tk i x b d a oid nid g v st bs"
fun set_Bool :: "bool \<Rightarrow> PdfValue \<Rightarrow> PdfValue" where
  "set_Bool x (PdfValue ty s tk i r b d a oid nid g v st bs) = PdfValue ty s tk i r x d a oid nid g v st bs"
fun set_Dictionary :: "(string \<times> PdfValue) list \<Rightarrow> PdfValue \<Rightarrow> PdfValue" where
  "set_Dictionary x (PdfValue ty s tk i r b d a oid nid g v st bs) = PdfValue ty s tk i r b x a oid nid g v st bs"
fun set_Array :: "PdfValue list \<Rightarrow> PdfValue \<Rightarrow> PdfValue" where
  "set_Array x (PdfValue ty s tk i r b d a oid nid g v st bs) = PdfValue ty s tk i r b d x oid nid g v st bs"
fun set_ID :: "int \<Rightarrow> PdfValue \<Rightarrow> PdfValue" where
  "set_ID x (PdfValue ty s tk i r b d a oid nid g v st bs) = PdfValue ty s tk i r b d a x nid g v st bs"
fun set_NewID :: "int \<Rightarrow> PdfValue \<Rightarrow> PdfValue" where
  "set_NewID x (PdfValue ty s tk i r b d a oid nid g v st bs) = PdfValue ty s tk i r b d a oid x g v st bs"
fun set_Gen :: "int \<Rightarrow> PdfValue \<Rightarrow> PdfValue" where
  "set_Gen x (PdfValue ty s tk i r b d a oid nid g v st bs) = PdfValue ty s tk i r b d a oid nid x v st bs"
fun set_Value :: "PdfValue option \<Rightarrow> PdfValue \<Rightarrow> PdfValue" where
  "set_Value x (PdfValue ty s tk i r b d a oid nid g v st bs) = PdfValue ty s tk i r b d a oid nid g x st bs"
fun set_Stream :: "PdfValue option \<Rightarrow> PdfValue \<Rightarrow> PdfValue" where
  "set_Stream x (PdfValue ty s tk i r b d a oid nid g v st bs) = PdfValue ty s tk i r b d a oid nid g v x bs"
fun set_Bytes :: "string \<Rightarrow> PdfValue \<Rightarrow> PdfValue" where
  "set_Bytes x (PdfValue ty s tk i r b d a oid nid g v st bs) = PdfValue ty s tk i r b d a oid nid g v st x"

text \<open>Map access on a \<^verbatim>\<open>Dictionary\<close>: \<^verbatim>\<open>d[k]\<close> with the comma-ok form is \<open>map_of d k\<close>;
  \<^verbatim>\<open>d[k] = v\<close> replaces the binding of an existing key in place and appends a new one.\<close>

fun dict_set :: "string \<Rightarrow> PdfValue \<Rightarrow> (string \<times> PdfValue) list \<Rightarrow> (string \<times> PdfValue) list" where
  "dict_set k v [] = [(k, v)]"
| "dict_set k v ((k', v') # d) = (if k = k' then (k, v) # d else (k', v') # dict_set k v d)"

text \<open>
  \<^verbatim>\<open>type PdfReader struct\<close>. The \<^verbatim>\<open>io.ReadSeeker\<close> \<^verbatim>\<open>f\<close> is the file's bytes \<open>fbytes\<close> together
  with its seek position \<open>fpos\<close>. The two library functions the reader calls and that are
  not part of the repository are fields as well. \<open>zlibDecode bs\<close> is \<open>None\<close> when
  \<^verbatim>\<open>zlib.NewReader\<close> refuses \<open>bs\<close>, and otherwise the bytes that reading it to the end
  yields, with the error that reading ended with, if any. \<open>ParseFloat\<close> is the value of
  \<^verbatim>\<open>strconv.ParseFloat(t, 64)\<close>. A \<^verbatim>\<open>float64\<close> is the real number it stands for, and
  \<open>round64\<close> is the rounding of a real number to \<^verbatim>\<open>float64\<close>: the result of an arithmetic
  operation of Go is the rounded exact result. Infinities and NaN are not modelled.
\<close>

record PdfReader =
  availableBoxes :: "string list"
  stack :: "string list"
  trailer :: "PdfValue option"
  catalog :: "PdfValue option"
  pages :: "PdfValue option list"
  xrefPos :: int
  xref :: "int \<Rightarrow> (int \<Rightarrow> int option) option"
  xrefStream :: "int \<Rightarrow> (int \<times> int) option"
  fbytes :: string
  fpos :: nat
  nBytes :: int
  SourceFile :: string
  curPage :: int
  alreadyRead :: bool
  pageCount :: int
  zlibDecode :: "string \<Rightarrow> (string \<times> error option) option"
  ParseFloat :: "string \<Rightarrow> real"
  round64 :: "real \<Rightarrow> real"

section \<open>The Paeth filter (\<^verbatim>\<open>filterPaeth\<close>, taken by the source from the png library)\<close>

text \<open>\<^verbatim>\<open>abs\<close>: \<^verbatim>\<open>m := x >> (intSize - 1); return (x ^ m) - m\<close>, with \<^verbatim>\<open>intSize = 64\<close>.\<close>

definition abs_go :: "int \<Rightarrow> int" where
  "abs_go x = (let m = drop_bit 63 x in (x XOR m) - m)"

text \<open>
  The inner loop \<^verbatim>\<open>for j := i; j < len(cdat); j += bytesPerPixel\<close>, with the running
  \<^verbatim>\<open>a\<close> and \<^verbatim>\<open>c\<close>. It is entered with \<^verbatim>\<open>i < bytesPerPixel\<close> only, so the stride is
  positive; reading \<^verbatim>\<open>pdat[j]\<close> past the end of \<^verbatim>\<open>pdat\<close> panics.
\<close>

function filterPaeth_row :: "nat \<Rightarrow> string \<Rightarrow> nat \<Rightarrow> int \<Rightarrow> int \<Rightarrow> string \<Rightarrow> error + string" where
  "filterPaeth_row bytesPerPixel pdat j a c cdat =
     (if j < length cdat \<and> 0 < bytesPerPixel then
        if length pdat \<le> j then Inl (Panic ''index out of range'')
        else
          let b = of_char (pdat ! j);
              pa = b - c;
              pb = a - c;
              pc = abs_go (pa + pb);
              pa = abs_go pa;
              pb = abs_go pb;
              a = (if pa \<le> pb \<and> pa \<le> pc then a else if pb \<le> pc then b else c);
              a = a + of_char (cdat ! j);
              a = a AND 255
          in filterPaeth_row bytesPerPixel pdat (j + bytesPerPixel) a b (cdat[j := char_of a])
      else Inr cdat)"
  by pat_completeness auto
termination
  by (relation "measure (\<lambda>(bpp, pdat, j, a, c, cdat). length cdat - j)") auto

declare filterPaeth_row.simps [simp del]

text \<open>The outer loop \<^verbatim>\<open>for i := 0; i < bytesPerPixel; i++\<close>, each round starting with
  \<^verbatim>\<open>a, c = 0, 0\<close>. The slice \<^verbatim>\<open>cdat\<close> is changed in place: the result is its new content.\<close>

fun filterPaeth_cols :: "nat list \<Rightarrow> nat \<Rightarrow> string \<Rightarrow> string \<Rightarrow> error + string" where
  "filterPaeth_cols [] bytesPerPixel pdat cdat = Inr cdat"
| "filterPaeth_cols (i # is) bytesPerPixel pdat cdat =
     (case filterPaeth_row bytesPerPixel pdat i 0 0 cdat of
        Inl e \<Rightarrow> Inl e
      | Inr cdat' \<Rightarrow> filterPaeth_cols is bytesPerPixel pdat cdat')"

definition filterPaeth :: "string \<Rightarrow> string \<Rightarrow> int \<Rightarrow> error + string" where
  "filterPaeth cdat pdat bytesPerPixel =
     filterPaeth_cols [0..<nat bytesPerPixel] (nat bytesPerPixel) pdat cdat"


section \<open>Cross-reference stream rows (\<^verbatim>\<open>readXref\<close>, the loop over the decoded rows)\<close>

text \<open>An index expression \<^verbatim>\<open>s[i]\<close> on a byte slice; out of range it panics.\<close>

definition byte_at :: "string \<Rightarrow> int \<Rightarrow> error + char" where
  "byte_at s i =
     (if 0 \<le> i \<and> i < int (length s) then Inr (s ! nat i)
      else Inl (Panic ''index out of range''))"

text \<open>\<^verbatim>\<open>binary.BigEndian.Uint32(b)\<close> on a slice of four bytes.\<close>

definition BigEndian_Uint32 :: "string \<Rightarrow> int" where
  "BigEndian_Uint32 b =
     of_char (b ! 0) * 16777216 + of_char (b ! 1) * 65536 + of_char (b ! 2) * 256 + of_char (b ! 3)"

text \<open>
  \<^verbatim>\<open>b := make([]byte, 4); copy(b[4-middleFieldSize:], objectData[1:1+middleFieldSize])\<close>
  and the big-endian read of \<^verbatim>\<open>b\<close>. The two slice expressions panic unless
  \<^verbatim>\<open>0 <= middleFieldSize <= 4\<close> and \<^verbatim>\<open>1+middleFieldSize <= cap(objectData)\<close>.
\<close>

definition xrefMiddleField :: "int \<Rightarrow> string \<Rightarrow> error + int" where
  "xrefMiddleField middleFieldSize objectData =
     (if middleFieldSize < 0 \<or> 4 < middleFieldSize \<or> int (length objectData) < 1 + middleFieldSize
      then Inl (Panic ''slice bounds out of range'')
      else Inr (BigEndian_Uint32
                  (replicate (4 - nat middleFieldSize) (CHR 0x00)
                   @ take (nat middleFieldSize) (drop 1 objectData))))"

text \<open>
  What one row does to the two maps (lines \<^verbatim>\<open>if objectData[0] == 1 { ... } else if
  objectData[0] == 2 { ... }\<close>). \<^verbatim>\<open>pr.xref[i] = make(map[int]int, 1)\<close> replaces whatever
  \<^verbatim>\<open>pr.xref[i]\<close> held.
\<close>

definition recordXrefRow :: "int \<Rightarrow> int \<Rightarrow> string \<Rightarrow> int \<Rightarrow> PdfReader \<Rightarrow> error + PdfReader" where
  "recordXrefRow firstFieldSize middleFieldSize objectData i pr =
     (case byte_at objectData 0 of
        Inl e \<Rightarrow> Inl e
      | Inr flag \<Rightarrow>
          if of_char flag = (1::int) then
            (case xrefMiddleField middleFieldSize objectData of
               Inl e \<Rightarrow> Inl e
             | Inr objPos \<Rightarrow>
                 (case byte_at objectData (firstFieldSize + middleFieldSize) of
                    Inl e \<Rightarrow> Inl e
                  | Inr g \<Rightarrow>
                      Inr (pr\<lparr>xref := (xref pr)(i \<mapsto> [of_char g \<mapsto> objPos])\<rparr>)))
          else if of_char flag = (2::int) then
            (case xrefMiddleField middleFieldSize objectData of
               Inl e \<Rightarrow> Inl e
             | Inr objID \<Rightarrow>
                 (case byte_at objectData (firstFieldSize + middleFieldSize) of
                    Inl e \<Rightarrow> Inl e
                  | Inr objIdx \<Rightarrow>
                      Inr (pr\<lparr>xrefStream := (xrefStream pr)(i \<mapsto> (objID, of_char objIdx))\<rparr>)))
          else Inr pr)"

text \<open>
  From the \<^verbatim>\<open>fieldSize\<close> bytes \<^verbatim>\<open>result\<close> just read to the new \<^verbatim>\<open>prevRow\<close> and to
  \<^verbatim>\<open>objectData\<close>: with a predictor, \<^verbatim>\<open>filterPaeth(result, prevRow, fieldSize)\<close>,
  \<^verbatim>\<open>copy(prevRow, result)\<close> and \<^verbatim>\<open>copy(objectData, result[1:fieldSize])\<close> into a zeroed
  buffer of \<^verbatim>\<open>fieldSize\<close> bytes; without one, \<^verbatim>\<open>objectData\<close> is \<^verbatim>\<open>result\<close>.
\<close>

definition decodeXrefRow :: "bool \<Rightarrow> nat \<Rightarrow> string \<Rightarrow> string \<Rightarrow> error + (string \<times> string)" where
  "decodeXrefRow paethDecode fieldSize result prevRow =
     (if paethDecode then
        (case filterPaeth result prevRow (int fieldSize) of
           Inl e \<Rightarrow> Inl e
         | Inr result' \<Rightarrow>
             Inr (result',
                  drop 1 result' @ replicate (fieldSize - length (drop 1 result')) (CHR 0x00)))
      else Inr (prevRow, result))"

text \<open>
  The loop \<^verbatim>\<open>for { result = make([]byte, fieldSize); _, err := io.ReadFull(b, result) ... i++ }\<close>
  over the inflated bytes \<open>p\<close>. \<^verbatim>\<open>io.ReadFull\<close> gives \<^verbatim>\<open>io.EOF\<close> when nothing is left
  (the loop ends) and \<^verbatim>\<open>io.ErrUnexpectedEOF\<close> on a short last row. With
  \<^verbatim>\<open>fieldSize = 0\<close> nothing is read and \<^verbatim>\<open>objectData[0]\<close> panics.
\<close>

function xrefStreamRows ::
  "bool \<Rightarrow> int \<Rightarrow> int \<Rightarrow> nat \<Rightarrow> string \<Rightarrow> string \<Rightarrow> int \<Rightarrow> PdfReader \<Rightarrow> error + PdfReader" where
  "xrefStreamRows paethDecode firstFieldSize middleFieldSize fieldSize p prevRow i pr =
     (if fieldSize = 0 then Inl (Panic ''index out of range'')
      else if p = [] then Inr pr
      else if length p < fieldSize then Inl (Wrap ErrUnexpectedEOF ''io.ReadFull error'')
      else
        (case decodeXrefRow paethDecode fieldSize (take fieldSize p) prevRow of
           Inl e \<Rightarrow> Inl e
         | Inr (prevRow', objectData) \<Rightarrow>
             (case recordXrefRow firstFieldSize middleFieldSize objectData i pr of
                Inl e \<Rightarrow> Inl e
              | Inr pr' \<Rightarrow>
                  xrefStreamRows paethDecode firstFieldSize middleFieldSize fieldSize
                    (drop fieldSize p) prevRow' (i + 1) pr')))"
  by pat_completeness auto
termination
  by (relation "measure (\<lambda>(pd, ff, mf, fs, p, prevRow, i, pr). length p)") auto

declare xrefStreamRows.simps [simp del]

text \<open>The rows \<^verbatim>\<open>objectData\<close> the loop goes through, in order: the same loop without the
  recording, for stating what the decoding yields.\<close>

function decodedRows :: "bool \<Rightarrow> nat \<Rightarrow> string \<Rightarrow> string \<Rightarrow> error + string list" where
  "decodedRows paethDecode fieldSize p prevRow =
     (if fieldSize = 0 then Inl (Panic ''index out of range'')
      else if p = [] then Inr []
      else if length p < fieldSize then Inl (Wrap ErrUnexpectedEOF ''io.ReadFull error'')
      else
        (case decodeXrefRow paethDecode fieldSize (take fieldSize p) prevRow of
           Inl e \<Rightarrow> Inl e
         | Inr (prevRow', objectData) \<Rightarrow>
             (case decodedRows paethDecode fieldSize (drop fieldSize p) prevRow' of
                Inl e \<Rightarrow> Inl e
              | Inr rows \<Rightarrow> Inr (objectData # rows))))"
  by pat_completeness auto
termination
  by (relation "measure (\<lambda>(pd, fs, p, prevRow). length p)") auto

declare decodedRows.simps [simp del]

text \<open>Recording a list of rows for the object ids \<open>i\<close>, \<open>i + 1\<close>, ...\<close>

fun recordXrefRows :: "int \<Rightarrow> int \<Rightarrow> string list \<Rightarrow> int \<Rightarrow> PdfReader \<Rightarrow> error + PdfReader" where
  "recordXrefRows firstFieldSize middleFieldSize [] i pr = Inr pr"
| "recordXrefRows firstFieldSize middleFieldSize (objectData # rows) i pr =
     (case recordXrefRow firstFieldSize middleFieldSize objectData i pr of
        Inl e \<Rightarrow> Inl e
      | Inr pr' \<Rightarrow> recordXrefRows firstFieldSize middleFieldSize rows (i + 1) pr')"

section \<open>PNG prediction as the PNG specification defines it\<close>

text \<open>
  These definitions follow the words of the specification (PNG filter types, one byte
  per pixel), not the code: they say how a byte matrix is \<^emph>\<open>encoded\<close>. Each encoded row is
  a tag byte followed by the filtered bytes; \<open>prior\<close> is the unfiltered row above (zeros
  above the first row).
\<close>

definition byte_sub :: "char \<Rightarrow> int \<Rightarrow> char" where
  "byte_sub x pred = char_of (of_char x - pred)"

text \<open>Filter type 2 (Up): each byte minus the byte above, modulo 256.\<close>

fun png_up_encode :: "string \<Rightarrow> string list \<Rightarrow> string" where
  "png_up_encode prior [] = []"
| "png_up_encode prior (row # rows) =
     (CHR 0x02 # map2 (\<lambda>x b. byte_sub x (of_char b)) row prior) @ png_up_encode row rows"

text \<open>Filter type 4 (Paeth): \<open>a\<close> = left, \<open>b\<close> = above, \<open>c\<close> = upper-left; the predictor is
  the one of \<open>a\<close>, \<open>b\<close>, \<open>c\<close> nearest to \<open>p = a + b - c\<close>.\<close>

definition PaethPredictor :: "int \<Rightarrow> int \<Rightarrow> int \<Rightarrow> int" where
  "PaethPredictor a b c =
     (let p = a + b - c; pa = \<bar>p - a\<bar>; pb = \<bar>p - b\<bar>; pc = \<bar>p - c\<bar>
      in if pa \<le> pb \<and> pa \<le> pc then a else if pb \<le> pc then b else c)"

fun png_paeth_encode_row :: "int \<Rightarrow> int \<Rightarrow> string \<Rightarrow> string \<Rightarrow> string" where
  "png_paeth_encode_row a c (x # row) (b # prior) =
     byte_sub x (PaethPredictor a (of_char b) c)
       # png_paeth_encode_row (of_char x) (of_char b) row prior"
| "png_paeth_encode_row a c row prior = []"

fun png_paeth_encode :: "string \<Rightarrow> string list \<Rightarrow> string" where
  "png_paeth_encode prior [] = []"
| "png_paeth_encode prior (row # rows) =
     (CHR 0x04 # png_paeth_encode_row 0 0 row prior) @ png_paeth_encode row rows"

text \<open>What the filter does to one byte when \<open>a\<close> and \<open>c\<close> are both 0: the byte above
  is added, modulo 256.\<close>

definition byte_add :: "char \<Rightarrow> char \<Rightarrow> char" where
  "byte_add x b = char_of ((of_char b + of_char x :: int) AND 255)"


section \<open>Error-passing glue\<close>

text \<open>A Go function with an \<^verbatim>\<open>error\<close> result that works on a state \<open>'s\<close> is a function
  \<open>'s \<Rightarrow> (error + 'a) \<times> 's\<close>. \<open>ebind\<close> is sequencing with
  \<^verbatim>\<open>if err != nil { return ..., err }\<close>, \<open>ewrap msg\<close> the same with
  \<^verbatim>\<open>fmt.Errorf("%w: msg", err)\<close>, \<open>ereplace msg\<close> the same with \<^verbatim>\<open>fmt.Errorf("msg")\<close>.\<close>

definition ebind :: "('s \<Rightarrow> (error + 'a) \<times> 's) \<Rightarrow> ('a \<Rightarrow> 's \<Rightarrow> (error + 'b) \<times> 's) \<Rightarrow> 's \<Rightarrow> (error + 'b) \<times> 's" where
  "ebind m k s = (case m s of (Inl e, s') \<Rightarrow> (Inl e, s') | (Inr x, s') \<Rightarrow> k x s')"

text \<open>A panic is not an error value: it passes every \<^verbatim>\<open>if err != nil\<close> of the callers
  unchanged, and so does the end of the bound of a bounded recursion.\<close>

primrec fatal :: "error \<Rightarrow> bool" where
  "fatal EOF = False"
| "fatal ErrUnexpectedEOF = False"
| "fatal (Errorf msg) = False"
| "fatal (Wrap e msg) = False"
| "fatal (Panic msg) = True"
| "fatal OutOfFuel = True"

text \<open>\<^verbatim>\<open>fmt.Errorf("%w: msg", err)\<close> and \<^verbatim>\<open>fmt.Errorf("msg")\<close> in the branch
  \<^verbatim>\<open>if err != nil\<close>.\<close>

definition wrapErr :: "string \<Rightarrow> error \<Rightarrow> error" where
  "wrapErr msg e = (if fatal e then e else Wrap e msg)"

definition replaceErr :: "string \<Rightarrow> error \<Rightarrow> error" where
  "replaceErr msg e = (if fatal e then e else Errorf msg)"

definition ewrap :: "string \<Rightarrow> ('s \<Rightarrow> (error + 'a) \<times> 's) \<Rightarrow> 's \<Rightarrow> (error + 'a) \<times> 's" where
  "ewrap msg m s = (case m s of (Inl e, s') \<Rightarrow> (Inl (wrapErr msg e), s') | (Inr x, s') \<Rightarrow> (Inr x, s'))"

definition ereplace :: "string \<Rightarrow> ('s \<Rightarrow> (error + 'a) \<times> 's) \<Rightarrow> 's \<Rightarrow> (error + 'a) \<times> 's" where
  "ereplace msg m s = (case m s of (Inl e, s') \<Rightarrow> (Inl (replaceErr msg e), s') | (Inr x, s') \<Rightarrow> (Inr x, s'))"

definition eret :: "'a \<Rightarrow> 's \<Rightarrow> (error + 'a) \<times> 's" where
  "eret x s = (Inr x, s)"

definition efail :: "error \<Rightarrow> 's \<Rightarrow> (error + 'a) \<times> 's" where
  "efail e s = (Inl e, s)"

lemma ebind_cong [fundef_cong]:
  "m s = m' s' \<Longrightarrow> s = s' \<Longrightarrow> (\<And>x t. m' s' = (Inr x, t) \<Longrightarrow> k x t = k' x t)
   \<Longrightarrow> ebind m k s = ebind m' k' s'"
  by (auto simp: ebind_def split: prod.splits sum.splits)

lemma ewrap_cong [fundef_cong]:
  "m s = m' s' \<Longrightarrow> ewrap msg m s = ewrap msg m' s'"
  by (auto simp: ewrap_def)

lemma ereplace_cong [fundef_cong]:
  "m s = m' s' \<Longrightarrow> ereplace msg m s = ereplace msg m' s'"
  by (auto simp: ereplace_def)

section \<open>Byte input: \<^verbatim>\<open>bufio.Reader\<close>, \<^verbatim>\<open>io.ReadFull\<close>, \<^verbatim>\<open>Seek\<close>\<close>

text \<open>
  A \<^verbatim>\<open>bufio.Reader\<close> holds the bytes it has read ahead (\<open>buf\<close>) and the last byte it
  handed out (for \<^verbatim>\<open>UnreadByte\<close>). One made by \<^verbatim>\<open>bufio.NewReader(pr.f)\<close> refills from
  the file at the file's seek position, 4096 bytes at a time, and moves that position;
  one made over a byte slice in memory holds all of it from the start.
\<close>

record bufio_Reader =
  fromFile :: bool
  buf :: string
  lastByte :: "char option"

type_synonym io = "PdfReader \<times> bufio_Reader"

definition NewReader :: bufio_Reader where
  "NewReader = \<lparr>fromFile = True, buf = [], lastByte = None\<rparr>"

definition NewReaderBytes :: "string \<Rightarrow> bufio_Reader" where
  "NewReaderBytes bs = \<lparr>fromFile = False, buf = bs, lastByte = None\<rparr>"

definition fill :: "io \<Rightarrow> io" where
  "fill s = (case s of (pr, r) \<Rightarrow>
     if fromFile r then
       let chunk = take 4096 (drop (fpos pr) (fbytes pr))
       in (pr\<lparr>fpos := fpos pr + length chunk\<rparr>, r\<lparr>buf := chunk\<rparr>)
     else (pr, r))"

definition ReadByte :: "io \<Rightarrow> (error + char) \<times> io" where
  "ReadByte s =
     (case (if buf (snd s) = [] then fill s else s) of (pr, r) \<Rightarrow>
        (case buf r of
           [] \<Rightarrow> (Inl EOF, (pr, r))
         | b # bs \<Rightarrow> (Inr b, (pr, r\<lparr>buf := bs, lastByte := Some b\<rparr>))))"

definition UnreadByte :: "io \<Rightarrow> io" where
  "UnreadByte s = (case s of (pr, r) \<Rightarrow>
     (case lastByte r of
        None \<Rightarrow> (pr, r)
      | Some b \<Rightarrow> (pr, r\<lparr>buf := b # buf r, lastByte := None\<rparr>)))"

definition remaining :: "io \<Rightarrow> nat" where
  "remaining s = (case s of (pr, r) \<Rightarrow>
     length (buf r) + (if fromFile r then length (fbytes pr) - fpos pr else 0))"

lemma fill_remaining: "buf (snd s) = [] \<Longrightarrow> remaining (fill s) = remaining s"
  by (cases s) (auto simp: fill_def remaining_def Let_def)

lemma ReadByte_remaining:
  assumes "ReadByte s = (Inr b, s')"
  shows "Suc (remaining s') = remaining s"
proof -
  define t where "t = (if buf (snd s) = [] then fill s else s)"
  have rt: "remaining t = remaining s" by (simp add: t_def fill_remaining)
  obtain pr r where t: "t = (pr, r)" by (cases t)
  from assms obtain bs where "buf r = b # bs" "s' = (pr, r\<lparr>buf := bs, lastByte := Some b\<rparr>)"
    unfolding ReadByte_def t_def[symmetric] t by (auto split: list.splits)
  then show ?thesis using rt by (simp add: t remaining_def)
qed

lemma ReadByte_remaining_le: "remaining (snd (ReadByte s)) \<le> remaining s"
proof (cases "fst (ReadByte s)")
  case (Inr b)
  then have "ReadByte s = (Inr b, snd (ReadByte s))" by (metis prod.collapse)
  from ReadByte_remaining[OF this] show ?thesis by simp
next
  case (Inl e)
  define t where "t = (if buf (snd s) = [] then fill s else s)"
  have rt: "remaining t = remaining s" by (simp add: t_def fill_remaining)
  obtain pr r where t: "t = (pr, r)" by (cases t)
  from Inl have "snd (ReadByte s) = t"
    unfolding ReadByte_def t_def[symmetric] t by (auto split: list.splits)
  then show ?thesis using rt by simp
qed

lemma UnreadByte_remaining:
  "remaining (UnreadByte s) \<le> Suc (remaining s)"
  by (cases s) (auto simp: UnreadByte_def remaining_def split: option.splits)

function skipComments :: "io \<Rightarrow> (error + unit) \<times> io" where
  "skipComments s =
     (case ReadByte s of
        (Inl e, s1) \<Rightarrow> (Inl (Wrap e ''Failed to ReadByte while skipping comments''), s1)
      | (Inr b, s1) \<Rightarrow>
          if b = CHR 0x0A \<or> b = CHR 0x0D then
            (if b = CHR 0x0D then
               (case ReadByte s1 of
                  (Inl e, s2) \<Rightarrow> (Inl (Wrap e ''Failed to read byte''), s2)
                | (Inr b2, s2) \<Rightarrow> (Inr (), if b2 \<noteq> CHR 0x0A then UnreadByte s2 else s2))
             else (Inr (), s1))
          else skipComments s1)"
  by pat_completeness auto
termination
  by (relation "measure remaining") (auto dest!: ReadByte_remaining[OF sym])

section \<open>The tokenizer\<close>

text \<open>\<^verbatim>\<open>skipWhitespace\<close>; the only read error of the model is \<^verbatim>\<open>io.EOF\<close>.\<close>

function skipWhitespace :: "io \<Rightarrow> (error + unit) \<times> io" where
  "skipWhitespace s =
     (case ReadByte s of
        (Inl e, s1) \<Rightarrow>
          if e = EOF then (Inr (), s1) else (Inl (Wrap e ''Failed to read byte''), s1)
      | (Inr b, s1) \<Rightarrow>
          if b = CHR '' '' \<or> b = CHR 0x0A \<or> b = CHR 0x0D \<or> b = CHR 0x09 then skipWhitespace s1
          else (Inr (), UnreadByte s1))"
  by pat_completeness auto
termination
  by (relation "measure remaining") (auto dest!: ReadByte_remaining[OF sym])

text \<open>\<^verbatim>\<open>string(b)\<close> for a byte \<^verbatim>\<open>b\<close>: the UTF-8 encoding of the code point \<^verbatim>\<open>b\<close>, which is
  the byte itself below \<^verbatim>\<open>0x80\<close> and two bytes from there on.\<close>

definition string_of_byte :: "char \<Rightarrow> string" where
  "string_of_byte b =
     (if (of_char b :: nat) < 128 then [b]
      else [char_of (192 + (of_char b :: nat) div 64), char_of (128 + (of_char b :: nat) mod 64)])"

text \<open>The bytes that end a plain token (the inner \<^verbatim>\<open>switch b\<close> of \<^verbatim>\<open>readToken\<close>).\<close>

definition tokenDelimiters :: string where
  "tokenDelimiters =
     [CHR '' '', CHR ''%'', CHR ''['', CHR '']'', CHR ''<'', CHR ''>'', CHR ''('', CHR '')'',
      CHR 0x0D, CHR 0x0A, CHR 0x09, CHR ''/'']"

text \<open>The loop labelled \<^verbatim>\<open>loop:\<close> in \<^verbatim>\<open>readToken\<close>: a read error, also at the end of the
  input, is an error.\<close>

function tokenRest :: "string \<Rightarrow> io \<Rightarrow> (error + string) \<times> io" where
  "tokenRest str s =
     (case ReadByte s of
        (Inl e, s1) \<Rightarrow> (Inl (Wrap e ''Failed to read byte''), s1)
      | (Inr b, s1) \<Rightarrow>
          if b \<in> set tokenDelimiters then (Inr str, UnreadByte s1)
          else tokenRest (str @ string_of_byte b) s1)"
  by pat_completeness auto
termination
  by (relation "measure (\<lambda>(str, s). remaining s)") (auto dest!: ReadByte_remaining[OF sym])

declare skipComments.simps [simp del] skipWhitespace.simps [simp del] tokenRest.simps [simp del]

lemma skipComments_remaining: "remaining (snd (skipComments s)) \<le> remaining s"
proof (induction s rule: skipComments.induct)
  case (1 s)
  obtain x s1 where rb: "ReadByte s = (x, s1)" by (cases "ReadByte s") auto
  show ?case
  proof (cases x)
    case (Inl e)
    then show ?thesis using rb ReadByte_remaining_le[of s]
      by (subst skipComments.simps) simp
  next
    case (Inr b)
    have r1: "Suc (remaining s1) = remaining s" using rb Inr ReadByte_remaining by simp
    show ?thesis
    proof (cases "b = CHR 0x0A \<or> b = CHR 0x0D")
      case False
      then have "remaining (snd (skipComments s1)) \<le> remaining s1"
        using "1.IH" rb Inr by auto
      then show ?thesis using rb Inr False r1
        by (subst skipComments.simps) simp
    next
      case True
      have "remaining (snd (ReadByte s1)) \<le> remaining s1" by (rule ReadByte_remaining_le)
      moreover have "\<And>b2 s2. ReadByte s1 = (Inr b2, s2) \<Longrightarrow> remaining (UnreadByte s2) \<le> remaining s1"
        using ReadByte_remaining UnreadByte_remaining by (metis le_trans order_refl)
      moreover have "\<And>b2 s2. ReadByte s1 = (Inr b2, s2) \<Longrightarrow> remaining s2 \<le> remaining s1"
        using ReadByte_remaining by (metis le_SucI order_refl)
      ultimately show ?thesis using rb Inr True r1
        by (subst skipComments.simps) (auto split: prod.splits sum.splits)
    qed
  qed
qed

lemma skipWhitespace_remaining: "remaining (snd (skipWhitespace s)) \<le> remaining s"
proof (induction s rule: skipWhitespace.induct)
  case (1 s)
  obtain x s1 where rb: "ReadByte s = (x, s1)" by (cases "ReadByte s") auto
  show ?case
  proof (cases x)
    case (Inl e)
    then show ?thesis using rb ReadByte_remaining_le[of s]
      by (subst skipWhitespace.simps) simp
  next
    case (Inr b)
    have r1: "Suc (remaining s1) = remaining s" using rb Inr ReadByte_remaining by simp
    have u: "remaining (UnreadByte s1) \<le> remaining s"
      using r1 UnreadByte_remaining[of s1] by simp
    show ?thesis
    proof (cases "b = CHR '' '' \<or> b = CHR 0x0A \<or> b = CHR 0x0D \<or> b = CHR 0x09")
      case True
      then have "remaining (snd (skipWhitespace s1)) \<le> remaining s1"
        using "1.IH" rb Inr by auto
      then show ?thesis using rb Inr True r1
        by (subst skipWhitespace.simps) simp
    next
      case False
      then show ?thesis using rb Inr u
        by (subst skipWhitespace.simps) simp
    qed
  qed
qed

lemma readToken_comment_remaining:
  assumes "(Inr u, s1) = skipWhitespace s" "(Inr b, s2) = ReadByte s1" "(Inr u', s3) = skipComments s2"
  shows "remaining s3 < remaining s"
proof -
  have "remaining s1 \<le> remaining s"
    using skipWhitespace_remaining[of s] assms(1)[symmetric] by simp
  moreover have "Suc (remaining s2) = remaining s1"
    using ReadByte_remaining[of s1 b s2] assms(2) by simp
  moreover have "remaining s3 \<le> remaining s2"
    using skipComments_remaining[of s2] assms(3)[symmetric] by simp
  ultimately show ?thesis by simp
qed

text \<open>
  \<^verbatim>\<open>readToken\<close>. The pushback stack \<^verbatim>\<open>pr.stack\<close> grows at its end. At the end of the
  input the token is empty and there is no error.
\<close>

function readToken :: "io \<Rightarrow> (error + string) \<times> io" where
  "readToken s =
     (if stack (fst s) \<noteq> [] then
        (Inr (last (stack (fst s))), ((fst s)\<lparr>stack := butlast (stack (fst s))\<rparr>, snd s))
      else
        (case skipWhitespace s of
           (Inl e, s1) \<Rightarrow> (Inl (Wrap e ''Failed to skip whitespace''), s1)
         | (Inr u, s1) \<Rightarrow>
             (case ReadByte s1 of
                (Inl e, s2) \<Rightarrow>
                  if e = EOF then (Inr [], s2) else (Inl (Wrap e ''Failed to read byte''), s2)
              | (Inr b, s2) \<Rightarrow>
                  if b = CHR ''['' \<or> b = CHR '']'' \<or> b = CHR ''('' \<or> b = CHR '')'' then
                    (Inr (string_of_byte b), s2)
                  else if b = CHR ''<'' \<or> b = CHR ''>'' then
                    (case ReadByte s2 of
                       (Inl e, s3) \<Rightarrow> (Inl (Wrap e ''Failed to read byte''), s3)
                     | (Inr nb, s3) \<Rightarrow>
                         if nb = b then (Inr (string_of_byte b @ string_of_byte nb), s3)
                         else (Inr (string_of_byte b), UnreadByte s3))
                  else if b = CHR ''%'' then
                    (case skipComments s2 of
                       (Inl e, s3) \<Rightarrow> (Inl (Wrap e ''Failed to skip comments''), s3)
                     | (Inr u, s3) \<Rightarrow> readToken s3)
                  else tokenRest (string_of_byte b) s2)))"
  by pat_completeness auto
termination
  by (relation "measure remaining") (auto dest: readToken_comment_remaining)

declare readToken.simps [simp del]

text \<open>\<^verbatim>\<open>io.ReadFull(r, bytes)\<close> for \<open>want\<close> bytes still to read, \<open>acc\<close> the bytes read so
  far. An empty buffer is refilled from the file, or, when at least a buffer's size is
  wanted, bypassed. No byte at all is \<^verbatim>\<open>io.EOF\<close>, too few \<^verbatim>\<open>io.ErrUnexpectedEOF\<close>.\<close>

function ReadFull_loop :: "nat \<Rightarrow> string \<Rightarrow> io \<Rightarrow> (error + string) \<times> io" where
  "ReadFull_loop want acc s =
     (case s of (pr, r) \<Rightarrow>
        if want = 0 then (Inr acc, s)
        else if buf r = [] then
          (let avail = (if fromFile r then drop (fpos pr) (fbytes pr) else [])
           in if avail = [] then (Inl (if acc = [] then EOF else ErrUnexpectedEOF), s)
              else if 4096 \<le> want then
                (let got = take want avail
                 in ReadFull_loop (want - length got) (acc @ got)
                      (pr\<lparr>fpos := fpos pr + length got\<rparr>, r\<lparr>lastByte := Some (last got)\<rparr>))
              else
                (let chunk = take 4096 avail
                 in ReadFull_loop want acc (pr\<lparr>fpos := fpos pr + length chunk\<rparr>, r\<lparr>buf := chunk\<rparr>)))
        else
          (let got = take want (buf r)
           in ReadFull_loop (want - length got) (acc @ got)
                (pr, r\<lparr>buf := drop want (buf r), lastByte := Some (last got)\<rparr>)))"
  by pat_completeness auto
termination
  by (relation "measure (\<lambda>(want, acc, s). 2 * want + (if buf (snd s) = [] then 1 else 0))")
     (auto split: if_splits simp flip: length_greater_0_conv)

declare ReadFull_loop.simps [simp del]

definition ReadFull :: "nat \<Rightarrow> io \<Rightarrow> (error + string) \<times> io" where
  "ReadFull n = ReadFull_loop n []"

text \<open>\<^verbatim>\<open>pr.f.Seek(offset, whence)\<close>: the new position, which must not be negative.\<close>

datatype whence = SeekStart | SeekCurrent | SeekEnd

definition Seek :: "int \<Rightarrow> whence \<Rightarrow> PdfReader \<Rightarrow> (error + int) \<times> PdfReader" where
  "Seek offset wh pr =
     (let abs_pos = (case wh of
                       SeekStart \<Rightarrow> offset
                     | SeekCurrent \<Rightarrow> int (fpos pr) + offset
                     | SeekEnd \<Rightarrow> int (length (fbytes pr)) + offset)
      in if abs_pos < 0 then (Inl (Errorf ''Seek: negative position''), pr)
         else (Inr abs_pos, pr\<lparr>fpos := nat abs_pos\<rparr>))"

text \<open>A computation on the reader alone, run while a \<^verbatim>\<open>bufio.Reader\<close> is held; a value or
  an error that needs no state; a nil pointer dereference.\<close>

definition on_reader :: "(PdfReader \<Rightarrow> (error + 'a) \<times> PdfReader) \<Rightarrow> io \<Rightarrow> (error + 'a) \<times> io" where
  "on_reader m s = (case m (fst s) of (x, pr') \<Rightarrow> (x, (pr', snd s)))"

definition with_bufio :: "bufio_Reader \<Rightarrow> (io \<Rightarrow> (error + 'a) \<times> io) \<Rightarrow> PdfReader \<Rightarrow> (error + 'a) \<times> PdfReader" where
  "with_bufio r m pr = (case m (pr, r) of (x, s') \<Rightarrow> (x, fst s'))"

definition elift :: "error + 'a \<Rightarrow> 's \<Rightarrow> (error + 'a) \<times> 's" where
  "elift x s = (x, s)"

definition the_default :: "'a \<Rightarrow> 'a option \<Rightarrow> 'a" where
  "the_default d p = (case p of None \<Rightarrow> d | Some x \<Rightarrow> x)"

definition deref :: "'a option \<Rightarrow> error + 'a" where
  "deref p = (case p of None \<Rightarrow> Inl (Panic ''nil pointer dereference'') | Some x \<Rightarrow> Inr x)"

section \<open>Numbers in tokens\<close>

definition isSpace :: "char \<Rightarrow> bool" where
  "isSpace c = (c = CHR 0x09 \<or> c = CHR 0x0A \<or> c = CHR 0x0B \<or> c = CHR 0x0C \<or> c = CHR 0x0D \<or> c = CHR '' '')"

text \<open>
  \<^verbatim>\<open>strings.TrimSpace\<close> removes the leading and the trailing white space that
  \<^verbatim>\<open>unicode.IsSpace\<close> accepts: the six of one byte and, in UTF-8, U+0085, U+00A0, U+1680,
  U+2000 to U+200A, U+2028, U+2029, U+202F, U+205F and U+3000. A byte sequence that is not
  valid UTF-8 decodes to U+FFFD, which is no white space.
\<close>

definition unicodeSpaces :: "string list" where
  "unicodeSpaces =
     [[CHR 0xC2, CHR 0x85], [CHR 0xC2, CHR 0xA0], [CHR 0xE1, CHR 0x9A, CHR 0x80],
      [CHR 0xE2, CHR 0x80, CHR 0x80], [CHR 0xE2, CHR 0x80, CHR 0x81], [CHR 0xE2, CHR 0x80, CHR 0x82],
      [CHR 0xE2, CHR 0x80, CHR 0x83], [CHR 0xE2, CHR 0x80, CHR 0x84], [CHR 0xE2, CHR 0x80, CHR 0x85],
      [CHR 0xE2, CHR 0x80, CHR 0x86], [CHR 0xE2, CHR 0x80, CHR 0x87], [CHR 0xE2, CHR 0x80, CHR 0x88],
      [CHR 0xE2, CHR 0x80, CHR 0x89], [CHR 0xE2, CHR 0x80, CHR 0x8A], [CHR 0xE2, CHR 0x80, CHR 0xA8],
      [CHR 0xE2, CHR 0x80, CHR 0xA9], [CHR 0xE2, CHR 0x80, CHR 0xAF], [CHR 0xE2, CHR 0x81, CHR 0x9F],
      [CHR 0xE3, CHR 0x80, CHR 0x80]]"

text \<open>The number of bytes of the white space at the start of a string, 0 when it starts
  with none.\<close>

definition spaceWidth :: "string \<Rightarrow> nat" where
  "spaceWidth str =
     (case str of
        [] \<Rightarrow> 0
      | c # cs \<Rightarrow>
          if isSpace c then 1
          else if take 2 str \<in> set unicodeSpaces then 2
          else if take 3 str \<in> set unicodeSpaces then 3
          else 0)"

lemma spaceWidth_less: "0 < spaceWidth str \<Longrightarrow> length (drop (spaceWidth str) str) < length str"
  by (cases str) (auto simp: spaceWidth_def)

function trimLeftSpace :: "string \<Rightarrow> string" where
  "trimLeftSpace str = (if spaceWidth str = 0 then str else trimLeftSpace (drop (spaceWidth str) str))"
  by pat_completeness auto
termination
  by (relation "measure length") (use spaceWidth_less in auto)

declare trimLeftSpace.simps [simp del]

text \<open>The white space at the end is found from the last byte backwards: for the encodings
  above that is the string read in reverse.\<close>

definition spaceWidthEnd :: "string \<Rightarrow> nat" where
  "spaceWidthEnd str =
     (case rev str of
        [] \<Rightarrow> 0
      | c # cs \<Rightarrow>
          if isSpace c then 1
          else if rev (take 2 (rev str)) \<in> set unicodeSpaces then 2
          else if rev (take 3 (rev str)) \<in> set unicodeSpaces then 3
          else 0)"

lemma spaceWidthEnd_less:
  assumes "0 < spaceWidthEnd str"
  shows "length (take (length str - spaceWidthEnd str) str) < length str"
proof -
  have "str \<noteq> []" using assms by (auto simp: spaceWidthEnd_def)
  then show ?thesis using assms by simp
qed

function trimRightSpace :: "string \<Rightarrow> string" where
  "trimRightSpace str =
     (if spaceWidthEnd str = 0 then str
      else trimRightSpace (take (length str - spaceWidthEnd str) str))"
  by pat_completeness auto
termination
  by (relation "measure length") (use spaceWidthEnd_less in auto)

declare trimRightSpace.simps [simp del]

definition TrimSpace :: "string \<Rightarrow> string" where
  "TrimSpace str = trimRightSpace (trimLeftSpace str)"

definition isDigit :: "char \<Rightarrow> bool" where
  "isDigit c = ((48::nat) \<le> of_char c \<and> of_char c \<le> (57::nat))"

definition isHexDigit :: "char \<Rightarrow> bool" where
  "isHexDigit h = (isDigit h \<or> ((97::nat) \<le> of_char h \<and> of_char h \<le> (102::nat))
                   \<or> ((65::nat) \<le> of_char h \<and> of_char h \<le> (70::nat)))"

text \<open>The loop \<^verbatim>\<open>for i, v := range str\<close> of \<^verbatim>\<open>isNumeric\<close> with its \<^verbatim>\<open>p\<close>, \<^verbatim>\<open>s\<close> and
  \<^verbatim>\<open>l\<close>.\<close>

fun isNumeric_scan :: "nat \<Rightarrow> nat \<Rightarrow> nat \<Rightarrow> nat \<Rightarrow> string \<Rightarrow> bool" where
  "isNumeric_scan i p s l [] = True"
| "isNumeric_scan i p s l (v # vs) =
     (if v = CHR ''.'' then
        (if 0 < p \<or> 0 < s \<or> i + 1 = l then False else isNumeric_scan (i + 1) i s l vs)
      else if v = CHR ''e'' \<or> v = CHR ''E'' then
        (if i = 0 \<or> 0 < s \<or> i + 1 = l then False else isNumeric_scan (i + 1) p i l vs)
      else if \<not> isDigit v then False
      else isNumeric_scan (i + 1) p s l vs)"

text \<open>\<^verbatim>\<open>isNumeric\<close>. After \<^verbatim>\<open>TrimSpace\<close> the string may be empty, and \<^verbatim>\<open>str[0]\<close> then
  panics.\<close>

definition isNumeric :: "string \<Rightarrow> error + bool" where
  "isNumeric str0 =
     (if str0 = [] then Inr False
      else
        let str = TrimSpace str0 in
        if str = [] then Inl (Panic ''index out of range'')
        else if (hd str = CHR ''-'' \<or> hd str = CHR ''+'') \<and> length str = 1 then Inr False
        else
          let str = (if hd str = CHR ''-'' \<or> hd str = CHR ''+'' then tl str else str) in
          if 2 < length str \<and> str ! 0 = CHR ''0'' \<and> (str ! 1 = CHR ''x'' \<or> str ! 1 = CHR ''X'')
          then Inr (list_all isHexDigit (drop 2 str))
          else Inr (isNumeric_scan 0 0 0 (length str) str))"

text \<open>\<^verbatim>\<open>strconv.Atoi\<close>: the value and the error. On a syntax error the value is 0, out of
  the 64-bit range it is the nearest bound.\<close>

fun decimalValue :: "int \<Rightarrow> string \<Rightarrow> int option" where
  "decimalValue acc [] = Some acc"
| "decimalValue acc (c # cs) =
     (if isDigit c then decimalValue (acc * 10 + (of_char c - 48)) cs else None)"

definition Atoi :: "string \<Rightarrow> int \<times> error option" where
  "Atoi str =
     (let neg = (str \<noteq> [] \<and> hd str = CHR ''-'');
          ds = (if str \<noteq> [] \<and> (hd str = CHR ''-'' \<or> hd str = CHR ''+'') then tl str else str)
      in if ds = [] then (0, Some (Errorf ''strconv.Atoi: invalid syntax''))
         else
           (case decimalValue 0 ds of
              None \<Rightarrow> (0, Some (Errorf ''strconv.Atoi: invalid syntax''))
            | Some n \<Rightarrow>
                let v = (if neg then - n else n) in
                if 9223372036854775807 < v
                then (9223372036854775807, Some (Errorf ''strconv.Atoi: value out of range''))
                else if v < - 9223372036854775808
                then (- 9223372036854775808, Some (Errorf ''strconv.Atoi: value out of range''))
                else (v, None)))"

section \<open>The value parser (\<^verbatim>\<open>readValue\<close>)\<close>

text \<open>The loop of the \<^verbatim>\<open>"<"\<close> case: bytes up to \<^verbatim>\<open>'>'\<close>, each added with
  \<^verbatim>\<open>s += string(b)\<close>.\<close>

function readHexString :: "string \<Rightarrow> io \<Rightarrow> (error + string) \<times> io" where
  "readHexString str s =
     (case ReadByte s of
        (Inl e, s1) \<Rightarrow> (Inl (Wrap e ''Failed to read byte''), s1)
      | (Inr b, s1) \<Rightarrow>
          if b \<noteq> CHR ''>'' then readHexString (str @ string_of_byte b) s1 else (Inr str, s1))"
  by pat_completeness auto
termination
  by (relation "measure (\<lambda>(str, s). remaining s)") (auto dest!: ReadByte_remaining[OF sym])

text \<open>The loop \<^verbatim>\<open>for openBrackets > 0\<close> of the \<^verbatim>\<open>"("\<close> case; a backslash and the byte
  after it are kept as they are (\<^verbatim>\<open>buf.WriteByte\<close> writes the byte itself).\<close>

function readStringBody :: "int \<Rightarrow> string \<Rightarrow> io \<Rightarrow> (error + string) \<times> io" where
  "readStringBody openBrackets bf s =
     (if 0 < openBrackets then
        (case ReadByte s of
           (Inl e, s1) \<Rightarrow> (Inl (Wrap e ''Failed to read byte''), s1)
         | (Inr b, s1) \<Rightarrow>
             if b = CHR 0x5C then
               (case ReadByte s1 of
                  (Inl e, s2) \<Rightarrow> (Inl (Wrap e ''Failed to read byte''), s2)
                | (Inr nb, s2) \<Rightarrow> readStringBody openBrackets (bf @ [b, nb]) s2)
             else
               (let ob = (if b = CHR ''('' then openBrackets + 1
                          else if b = CHR '')'' then openBrackets - 1 else openBrackets)
                in readStringBody ob (if 0 < ob then bf @ [b] else bf) s1))
      else (Inr bf, s))"
  by pat_completeness auto
termination
  by (relation "measure (\<lambda>(ob, bf, s). remaining s)") (auto dest!: ReadByte_remaining[OF sym])

declare readHexString.simps [simp del] readStringBody.simps [simp del]

definition pushToken :: "string \<Rightarrow> io \<Rightarrow> (error + unit) \<times> io" where
  "pushToken t s = (Inr (), ((fst s)\<lparr>stack := stack (fst s) @ [t]\<rparr>, snd s))"

text \<open>The end of the \<^verbatim>\<open>default\<close> case for a numeric token: an integer when
  \<^verbatim>\<open>strconv.Atoi\<close> accepts it (with \<^verbatim>\<open>float64(tInt)\<close> beside it), a real otherwise.\<close>

definition numericValue :: "string \<Rightarrow> PdfValue \<Rightarrow> io \<Rightarrow> (error + PdfValue) \<times> io" where
  "numericValue t result s =
     (case Atoi t of
        (n, None) \<Rightarrow>
          (Inr (set_Real (round64 (fst s) (of_int n)) (set_Int n (set_Type PDFTypeNumeric result))), s)
      | (n, Some e) \<Rightarrow> (Inr (set_Real (ParseFloat (fst s) t) (set_Type PDFTypeReal result)), s))"

text \<open>The \<^verbatim>\<open>default\<close> case of the \<^verbatim>\<open>switch t\<close>: a number with its look-ahead of two
  tokens (\<^verbatim>\<open>id gen obj\<close>, \<^verbatim>\<open>id gen R\<close>), a boolean, \<^verbatim>\<open>null\<close> or a token.\<close>

definition readValueDefault :: "string \<Rightarrow> PdfValue \<Rightarrow> io \<Rightarrow> (error + PdfValue) \<times> io" where
  "readValueDefault t result0 =
     (let result = set_Token t (set_Type PDFTypeToken result0) in
      ebind (elift (isNumeric t)) (\<lambda>num.
        if num then
          ebind (ewrap ''Failed to read token'' readToken) (\<lambda>t2.
            if t2 \<noteq> [] then
              ebind (elift (isNumeric t2)) (\<lambda>num2.
                if num2 then
                  ebind (ewrap ''Failed to read token'' readToken) (\<lambda>t3.
                    if t3 \<noteq> [] then
                      if t3 = ''obj'' then
                        eret (set_Gen (fst (Atoi t2)) (set_ID (fst (Atoi t)) (set_Type PDFTypeObjDec result)))
                      else if t3 = ''R'' then
                        eret (set_Gen (fst (Atoi t2)) (set_ID (fst (Atoi t)) (set_Type PDFTypeObjRef result)))
                      else
                        ebind (pushToken t3) (\<lambda>u.
                        ebind (pushToken t2) (\<lambda>u. numericValue t result))
                    else ebind (pushToken t2) (\<lambda>u. numericValue t result))
                else ebind (pushToken t2) (\<lambda>u. numericValue t result))
            else numericValue t result)
        else if t = ''true'' \<or> t = ''false'' then
          eret (set_Bool (t = ''true'') (set_Type PDFTypeBoolean result))
        else if t = ''null'' then eret (set_Type PDFTypeNull result)
        else eret (set_Token t (set_Type PDFTypeToken result))))"

text \<open>
  The loop of the \<^verbatim>\<open>"<<"\<close> case of \<^verbatim>\<open>readValue\<close>. \<open>rv\<close> is the recursive call
  \<^verbatim>\<open>pr.readValue(r, newKey)\<close>; the second argument bounds the number of rounds
  (\<open>OutOfFuel\<close> beyond it). The test for a missing value reads \<^verbatim>\<open>value.String\<close>, as
  the source does.
\<close>

primrec readDictionary ::
  "(string \<Rightarrow> io \<Rightarrow> (error + PdfValue) \<times> io) \<Rightarrow> nat \<Rightarrow> PdfValue \<Rightarrow> io \<Rightarrow> (error + PdfValue) \<times> io" where
  "readDictionary rv 0 result s = (Inl OutOfFuel, s)"
| "readDictionary rv (Suc k) result s =
     ebind (ewrap ''Failed to read token'' readToken) (\<lambda>key.
       if key = [] then efail (Errorf ''Token is empty'')
       else if key = ''>>'' then eret (set_Type PDFTypeDictionary result)
       else
         ebind (ewrap ''Failed to read token'' readToken) (\<lambda>newKey.
         ebind (ewrap ''Failed to read value for token'' (rv newKey)) (\<lambda>val.
           if vType val = - 1 then eret result
           else if vType val = PDFTypeToken \<and> vString val = ''>>'' then
             eret (set_Type PDFTypeDictionary
                     (set_Dictionary (dict_set key val (vDictionary result))
                        (set_Type PDFTypeNull result)))
           else
             readDictionary rv k
               (set_Dictionary (dict_set key val (vDictionary result)) result)))) s"

text \<open>The loop of the \<^verbatim>\<open>"["\<close> case, with \<^verbatim>\<open>tmpResult\<close>.\<close>

primrec readArray ::
  "(string \<Rightarrow> io \<Rightarrow> (error + PdfValue) \<times> io) \<Rightarrow> nat \<Rightarrow> PdfValue \<Rightarrow> PdfValue list \<Rightarrow> io
   \<Rightarrow> (error + PdfValue) \<times> io" where
  "readArray rv 0 result tmpResult s = (Inl OutOfFuel, s)"
| "readArray rv (Suc k) result tmpResult s =
     ebind (ewrap ''Failed to read token'' readToken) (\<lambda>key.
       if key = [] then efail (Errorf ''Token is empty'')
       else if key = '']'' then eret (set_Array tmpResult (set_Type PDFTypeArray result))
       else
         ebind (ewrap ''Failed to read value for token'' (rv key)) (\<lambda>val.
           if vType val = - 1 then eret result
           else readArray rv k result (tmpResult @ [val]))) s"

text \<open>
  \<^verbatim>\<open>readValue\<close>. The recursion follows the nesting of the input; the first argument
  bounds the depth of nested calls and the rounds of the two loops.
\<close>

primrec readValue :: "nat \<Rightarrow> string \<Rightarrow> io \<Rightarrow> (error + PdfValue) \<times> io" where
  "readValue 0 t s = (Inl OutOfFuel, s)"
| "readValue (Suc n) t s =
     (let result = set_Array [] (set_Dictionary [] (set_Token t (set_Type (- 1) PdfValue0))) in
      if t = ''<'' then
        ebind (readHexString []) (\<lambda>str. eret (set_String str (set_Type PDFTypeHex result))) s
      else if t = ''<<'' then readDictionary (readValue n) n result s
      else if t = ''['' then readArray (readValue n) n result [] s
      else if t = ''('' then
        ebind (readStringBody 1 []) (\<lambda>str. eret (set_String str (set_Type PDFTypeString result))) s
      else if t = ''stream'' then (Inl (Errorf ''Stream not implemented''), s)
      else readValueDefault t result s)"

section \<open>Object resolution\<close>

text \<open>The loop \<^verbatim>\<open>for i := 0; i < n; i++\<close> of \<^verbatim>\<open>resolveCompressedObject\<close> over the pairs
  (object id, position) at the head of an object stream; \<open>k\<close> rounds are left.\<close>

primrec objStmPairs :: "nat \<Rightarrow> int \<Rightarrow> int \<Rightarrow> int \<times> int \<Rightarrow> io \<Rightarrow> (error + int \<times> int) \<times> io" where
  "objStmPairs 0 i objectIndex sub s = (Inr sub, s)"
| "objStmPairs (Suc k) i objectIndex sub s =
     ebind (ewrap ''Failed to read token'' readToken) (\<lambda>token.
       case snd (Atoi token) of
         Some e \<Rightarrow> efail (Wrap e ''Failed to convert token into integer'')
       | None \<Rightarrow>
           ebind (ewrap ''Failed to read token'' readToken) (\<lambda>token2.
             case snd (Atoi token2) of
               Some e \<Rightarrow> efail (Wrap e ''Failed to convert token into integer'')
             | None \<Rightarrow>
                 objStmPairs k (i + 1) objectIndex
                   (if i = objectIndex then (fst (Atoi token), fst (Atoi token2)) else sub))) s"

text \<open>
  \<^verbatim>\<open>resolveCompressedObject\<close>. \<open>self\<close> is \<^verbatim>\<open>pr.ResolveObject\<close> (the two functions call
  each other), \<open>n\<close> the bound handed to \<open>readValue\<close>.
\<close>

definition resolveCompressedObject ::
  "nat \<Rightarrow> (PdfValue \<Rightarrow> PdfReader \<Rightarrow> (error + PdfValue) \<times> PdfReader) \<Rightarrow> PdfValue
   \<Rightarrow> PdfReader \<Rightarrow> (error + PdfValue) \<times> PdfReader" where
  "resolveCompressedObject n self objSpec pr0 =
     (case xrefStream pr0 (vID objSpec) of
        None \<Rightarrow> (Inl (Errorf ''could not find object ID in xref stream or xref table''), pr0)
      | Some (objectID, objectIndex) \<Rightarrow>
         (ebind (ewrap ''Failed to resolve compressed object''
                  (self (set_Gen 0 (set_ID objectID (set_Type PDFTypeObjRef PdfValue0))))) (\<lambda>compressedObj.
          ebind (elift (deref (vValue compressedObj))) (\<lambda>cv.
          case map_of (vDictionary cv) ''/Type'' of
            None \<Rightarrow> efail (Errorf ''could not determine compressed object type'')
          | Some ty \<Rightarrow>
              if vToken ty \<noteq> ''/ObjStm''
              then efail (Errorf ''Expected compressed object type to be /ObjStm'')
              else
          ebind (elift (deref (map_of (vDictionary cv) ''/N''))) (\<lambda>nv.
          if vInt nv \<le> 0 then efail (Errorf ''No sub objects in compressed object'')
          else
          ebind (elift (deref (map_of (vDictionary cv) ''/First''))) (\<lambda>fv.
          ebind (case map_of (vDictionary cv) ''/Filter'' of
                   None \<Rightarrow> eret []
                 | Some fl \<Rightarrow>
                     if vToken fl \<noteq> ''/FlateDecode''
                     then efail (Errorf ''Unsupported filter - expected /FlateDecode'')
                     else eret (vToken fl)) (\<lambda>filter.
          ebind (elift (deref (vStream compressedObj))) (\<lambda>st.
          ebind (if filter = ''/FlateDecode'' then
                   (\<lambda>pr. case zlibDecode pr (vBytes st) of
                           None \<Rightarrow> (Inl (Panic ''nil pointer dereference''), pr)
                         | Some (dec, err) \<Rightarrow> (Inr dec, pr))
                 else eret (vBytes st)) (\<lambda>bytes.
          ebind (with_bufio (NewReaderBytes bytes)
                   (objStmPairs (nat (vInt nv)) 0 objectIndex (0, 0))) (\<lambda>(subObjID, subObjPos).
          with_bufio (NewReaderBytes (drop (nat (subObjPos + vInt fv)) bytes))
            (ebind (ewrap ''Failed to read token'' readToken) (\<lambda>token.
             ebind (ewrap ''Failed to read value for token'' (readValue n token)) (\<lambda>obj.
             eret (set_Value (Some obj)
                     (set_Type PDFTypeObject (set_Gen 0 (set_ID subObjID PdfValue0)))))))))))))))) pr0)"

text \<open>
  The part of \<^verbatim>\<open>ResolveObject\<close> that reads through the \<^verbatim>\<open>bufio.Reader\<close> \<^verbatim>\<open>r\<close>, from the
  first \<^verbatim>\<open>pr.readToken(r)\<close> to the check for \<^verbatim>\<open>endobj\<close>. The stream length may itself be
  a reference, resolved with \<open>self\<close> while \<^verbatim>\<open>r\<close> is held.
\<close>

definition readObject ::
  "nat \<Rightarrow> (PdfValue \<Rightarrow> PdfReader \<Rightarrow> (error + PdfValue) \<times> PdfReader) \<Rightarrow> PdfValue
   \<Rightarrow> io \<Rightarrow> (error + PdfValue) \<times> io" where
  "readObject n self objSpec =
     ebind (ewrap ''Failed to read token'' readToken) (\<lambda>token.
     ebind (ewrap ''Failed to read value for token'' (readValue n token)) (\<lambda>obj.
     if vType obj \<noteq> PDFTypeObjDec then efail (Errorf ''expected type to be PDF_TYPE_OBJDEC'')
     else if vID obj \<noteq> vID objSpec then efail (Errorf ''object ID does not match ObjSpec ID'')
     else if vGen obj \<noteq> vGen objSpec then efail (Errorf ''Object Gen does not match ObjSpec Gen'')
     else
     ebind (ewrap ''Failed to read token'' readToken) (\<lambda>token.
     ebind (ewrap ''Failed to read value for token'' (readValue n token)) (\<lambda>val.
     ebind (ewrap ''Failed to read token'' readToken) (\<lambda>token.
     let result = set_Value (Some val)
                    (set_Type PDFTypeObject (set_Gen (vGen obj) (set_ID (vID obj) PdfValue0))) in
     ebind (if token = ''stream'' then
              ebind (ewrap ''Failed to skip whitespace'' skipWhitespace) (\<lambda>u.
              ebind (elift (deref (map_of (vDictionary val) ''/Length''))) (\<lambda>lengthDict.
              ebind (if vType lengthDict = PDFTypeObjRef then
                       ebind (ewrap ''Failed to resolve length object of stream''
                                (on_reader (self lengthDict))) (\<lambda>ld.
                       ebind (elift (deref (vValue ld))) (\<lambda>lv. eret (vInt lv)))
                     else eret (vInt lengthDict)) (\<lambda>len.
              ebind (if len < 0 then efail (Panic ''makeslice: len out of range'')
                     else ewrap ''Failed to read bytes from buffer'' (ReadFull (nat len))) (\<lambda>bytes.
              ebind (ewrap ''Failed to read token'' readToken) (\<lambda>token.
              if token \<noteq> ''endstream'' then efail (Errorf ''Expected next token to be: endstream'')
              else
              ebind (ewrap ''Failed to read token'' readToken) (\<lambda>token.
              eret (set_Stream (Some (set_Bytes bytes (set_Type PDFTypeStream PdfValue0)))
                      (set_Type PDFTypeStream result), token)))))))
            else eret (result, token)) (\<lambda>(result, token).
     if token \<noteq> ''endobj'' then efail (Errorf ''Expected next token to be: endobj'')
     else eret result))))))"

text \<open>
  \<^verbatim>\<open>ResolveObject\<close>. A \<^verbatim>\<open>/Length\<close> that refers to its own object, or an object stream that
  is listed as its own member, makes the Go function call itself without end; the first
  argument bounds the depth of these calls (and is the bound handed to \<open>readValue\<close>).
  \<^verbatim>\<open>pr.xref[objSpec.ID][objSpec.Gen]\<close> is 0 when the generation is not in the map.
\<close>

fun ResolveObject :: "nat \<Rightarrow> PdfValue \<Rightarrow> PdfReader \<Rightarrow> (error + PdfValue) \<times> PdfReader" where
  "ResolveObject 0 objSpec pr = (Inl OutOfFuel, pr)"
| "ResolveObject (Suc n) objSpec pr =
     (if vType objSpec \<noteq> PDFTypeObjRef then (Inr objSpec, pr)
      else
        (case xref pr (vID objSpec) of
           None \<Rightarrow> resolveCompressedObject n (ResolveObject n) objSpec pr
         | Some gens \<Rightarrow>
             (let offset = (case gens (vGen objSpec) of None \<Rightarrow> 0 | Some off \<Rightarrow> off) in
              ebind (ewrap ''Failed to get current position of file'' (Seek 0 SeekCurrent)) (\<lambda>oldPos.
              ebind (ewrap ''Failed to set position of file'' (Seek offset SeekStart)) (\<lambda>u.
              ebind (with_bufio NewReader (readObject n (ResolveObject n) objSpec)) (\<lambda>result.
              ebind (ewrap ''Failed to set position of file'' (Seek oldPos SeekStart)) (\<lambda>u.
              eret result)))) pr)))"

section \<open>Page queries of the reader\<close>

text \<open>\<^verbatim>\<open>pr.pages[pageno-1]\<close> after the check \<^verbatim>\<open>len(pr.pages) < pageno\<close>: a page number
  below 1 is an index out of range. An entry of \<^verbatim>\<open>pr.pages\<close> may be \<^verbatim>\<open>nil\<close>.\<close>

definition pageAt :: "int \<Rightarrow> PdfReader \<Rightarrow> (error + PdfValue option) \<times> PdfReader" where
  "pageAt pageno pr =
     (if int (length (pages pr)) < pageno then (Inl (Errorf ''page does not exist''), pr)
      else if pageno < 1 then (Inl (Panic ''index out of range''), pr)
      else (Inr (pages pr ! nat (pageno - 1)), pr))"

text \<open>\<^verbatim>\<open>page.Value.Dictionary\<close> for a pointer \<^verbatim>\<open>page\<close>: both \<^verbatim>\<open>page\<close> and \<^verbatim>\<open>page.Value\<close>
  may be \<^verbatim>\<open>nil\<close>.\<close>

definition valueDictionary :: "PdfValue option \<Rightarrow> error + (string \<times> PdfValue) list" where
  "valueDictionary page =
     (case page of
        None \<Rightarrow> Inl (Panic ''nil pointer dereference'')
      | Some pg \<Rightarrow>
          (case vValue pg of
             None \<Rightarrow> Inl (Panic ''nil pointer dereference'')
           | Some v \<Rightarrow> Inr (vDictionary v)))"

text \<open>\<^verbatim>\<open>pr.ResolveObject(p)\<close> for a pointer \<^verbatim>\<open>p\<close> that may be \<^verbatim>\<open>nil\<close>; \<open>n\<close> is the bound of
  \<open>ResolveObject\<close>.\<close>

definition ResolveObjectPtr :: "nat \<Rightarrow> PdfValue option \<Rightarrow> PdfReader \<Rightarrow> (error + PdfValue) \<times> PdfReader" where
  "ResolveObjectPtr n p pr =
     (case p of
        None \<Rightarrow> (Inl (Panic ''nil pointer dereference''), pr)
      | Some objSpec \<Rightarrow> ResolveObject n objSpec pr)"

text \<open>\<^verbatim>\<open>if res.Type == PDFTypeObject { return res.Value, nil }; return res, nil\<close>: the
  result is a pointer.\<close>

definition valueOfObject :: "PdfValue \<Rightarrow> PdfValue option" where
  "valueOfObject res = (if vType res = PDFTypeObject then vValue res else Some res)"

text \<open>\<^verbatim>\<open>GetPageResources\<close>.\<close>

definition GetPageResources :: "nat \<Rightarrow> int \<Rightarrow> PdfReader \<Rightarrow> (error + PdfValue option) \<times> PdfReader" where
  "GetPageResources n pageno =
     ebind (pageAt pageno) (\<lambda>pg.
     ebind (ewrap ''Failed to resolve page object'' (ResolveObjectPtr n pg)) (\<lambda>page.
     ebind (elift (valueDictionary (Some page))) (\<lambda>dict.
       case map_of dict ''/Resources'' of
         Some res0 \<Rightarrow>
           ebind (ewrap ''Failed to resolve resources object'' (ResolveObject n res0)) (\<lambda>res.
           eret (valueOfObject res))
       | None \<Rightarrow>
           (case map_of dict ''/Parent'' of
              Some par \<Rightarrow>
                ebind (ewrap ''Failed to resolve parent object'' (ResolveObject n par)) (\<lambda>res.
                eret (valueOfObject res))
            | None \<Rightarrow> eret (Some PdfValue0)))))"

text \<open>\<^verbatim>\<open>getPageContent\<close>: a reference is resolved, an array is gone through element by
  element (recursively), anything else gives nothing. The first argument bounds the
  nesting of arrays and is the bound of \<open>ResolveObject\<close>.\<close>

primrec getPageContentArray ::
  "(PdfValue \<Rightarrow> PdfReader \<Rightarrow> (error + PdfValue list) \<times> PdfReader) \<Rightarrow> PdfValue list \<Rightarrow> PdfValue list
   \<Rightarrow> PdfReader \<Rightarrow> (error + PdfValue list) \<times> PdfReader" where
  "getPageContentArray gpc [] contents = eret contents"
| "getPageContentArray gpc (x # xs) contents =
     ebind (ewrap ''Failed to get page content'' (gpc x)) (\<lambda>tmpContents.
     getPageContentArray gpc xs (contents @ tmpContents))"

primrec getPageContent :: "nat \<Rightarrow> PdfValue \<Rightarrow> PdfReader \<Rightarrow> (error + PdfValue list) \<times> PdfReader" where
  "getPageContent 0 objSpec = efail OutOfFuel"
| "getPageContent (Suc n) objSpec =
     (if vType objSpec = PDFTypeObjRef then
        ebind (ewrap ''Failed to resolve object'' (ResolveObject (Suc n) objSpec)) (\<lambda>content.
        eret [content])
      else if vType objSpec = PDFTypeArray then
        getPageContentArray (getPageContent n) (vArray objSpec) []
      else eret [])"

text \<open>The loop of \<^verbatim>\<open>rebuildContentStream\<close> over the filters. The error of
  \<^verbatim>\<open>zlib.NewReader\<close> is dropped by the source, and the \<^verbatim>\<open>nil\<close> reader then panics.\<close>

fun applyFilters :: "PdfValue list \<Rightarrow> string \<Rightarrow> PdfReader \<Rightarrow> (error + string) \<times> PdfReader" where
  "applyFilters [] stream pr = (Inr stream, pr)"
| "applyFilters (fl # fls) stream pr =
     (if vToken fl = ''/FlateDecode'' then
        (case zlibDecode pr stream of
           None \<Rightarrow> (Inl (Panic ''nil pointer dereference''), pr)
         | Some (dec, err) \<Rightarrow> applyFilters fls dec pr)
      else (Inl (Errorf ''Unspported filter''), pr))"

text \<open>\<^verbatim>\<open>rebuildContentStream\<close>.\<close>

definition rebuildContentStream :: "nat \<Rightarrow> PdfValue \<Rightarrow> PdfReader \<Rightarrow> (error + string) \<times> PdfReader" where
  "rebuildContentStream n content =
     ebind (elift (valueDictionary (Some content))) (\<lambda>dict.
     ebind (case map_of dict ''/Filter'' of
              None \<Rightarrow> eret []
            | Some filter0 \<Rightarrow>
                ebind (if vType filter0 = PDFTypeObjRef then
                         ebind (ewrap ''Failed to resolve object'' (ResolveObject n filter0)) (\<lambda>tmpFilter.
                         elift (deref (vValue tmpFilter)))
                       else eret filter0) (\<lambda>filter.
                if vType filter = PDFTypeToken then eret [filter]
                else if vType filter = PDFTypeArray then eret (vArray filter)
                else eret [])) (\<lambda>filters.
     ebind (elift (deref (vStream content))) (\<lambda>st.
     applyFilters filters (vBytes st))))"

text \<open>The loop of \<^verbatim>\<open>GetContent\<close> over the content streams.\<close>

fun rebuildAll :: "nat \<Rightarrow> PdfValue list \<Rightarrow> string \<Rightarrow> PdfReader \<Rightarrow> (error + string) \<times> PdfReader" where
  "rebuildAll n [] buffer pr = (Inr buffer, pr)"
| "rebuildAll n (c # cs) buffer pr =
     (case rebuildContentStream n c pr of
        (Inl e, pr') \<Rightarrow> (Inl (wrapErr ''Failed to rebuild content stream'' e), pr')
      | (Inr tmpBuffer, pr') \<Rightarrow> rebuildAll n cs (buffer @ tmpBuffer) pr')"

text \<open>\<^verbatim>\<open>GetContent\<close>.\<close>

definition GetContent :: "nat \<Rightarrow> int \<Rightarrow> PdfReader \<Rightarrow> (error + string) \<times> PdfReader" where
  "GetContent n pageno =
     ebind (pageAt pageno) (\<lambda>page.
     ebind (elift (valueDictionary page)) (\<lambda>dict.
       case map_of dict ''/Contents'' of
         Some c \<Rightarrow>
           ebind (ewrap ''Failed to get page content'' (getPageContent n c)) (\<lambda>contents.
           rebuildAll n contents [])
       | None \<Rightarrow> eret []))"

text \<open>\<^verbatim>\<open>GetNumPages\<close>.\<close>

definition GetNumPages :: "PdfReader \<Rightarrow> (error + int) \<times> PdfReader" where
  "GetNumPages pr =
     (if pageCount pr = 0 then (Inl (Errorf ''Page count is 0''), pr) else (Inr (pageCount pr), pr))"

text \<open>
  A box is a \<^verbatim>\<open>map[string]float64\<close>: an association list; a key that is absent reads as
  0, and \<^verbatim>\<open>nil\<close> and the empty map are both \<open>[]\<close>. The boxes of a page are a
  \<^verbatim>\<open>map[string]map[string]float64\<close>, the boxes of all pages a map from the page number.
\<close>

type_synonym box = "(string \<times> real) list"

definition boxGet :: "box \<Rightarrow> string \<Rightarrow> real" where
  "boxGet bx k = (case map_of bx k of None \<Rightarrow> 0 | Some v \<Rightarrow> v)"

fun boxSet :: "string \<Rightarrow> real \<Rightarrow> box \<Rightarrow> box" where
  "boxSet k v [] = [(k, v)]"
| "boxSet k v ((k', v') # bx) = (if k = k' then (k, v) # bx else (k', v') # boxSet k v bx)"

definition boxesGet :: "(string \<times> box) list \<Rightarrow> string \<Rightarrow> box" where
  "boxesGet bs k = (case map_of bs k of None \<Rightarrow> [] | Some bx \<Rightarrow> bx)"

definition pageBoxesGet :: "(int \<times> (string \<times> box) list) list \<Rightarrow> int \<Rightarrow> (string \<times> box) list" where
  "pageBoxesGet pb p = (case map_of pb p of None \<Rightarrow> [] | Some bs \<Rightarrow> bs)"

text \<open>\<^verbatim>\<open>box.Array[i].Real\<close>.\<close>

definition arrayReal :: "PdfValue \<Rightarrow> int \<Rightarrow> error + real" where
  "arrayReal bx i =
     (if 0 \<le> i \<and> i < int (length (vArray bx)) then Inr (vReal (vArray bx ! nat i))
      else Inl (Panic ''index out of range''))"

text \<open>The eight entries that \<^verbatim>\<open>getPageBox\<close> computes from the array of a box; \<open>rnd\<close> is
  the rounding to \<^verbatim>\<open>float64\<close> after a subtraction and after a division (\<^verbatim>\<open>math.Abs\<close>,
  \<^verbatim>\<open>math.Min\<close> and \<^verbatim>\<open>math.Max\<close> are exact).\<close>

definition boxOfArray :: "(real \<Rightarrow> real) \<Rightarrow> PdfValue \<Rightarrow> real \<Rightarrow> error + box" where
  "boxOfArray rnd bx k =
     (case (arrayReal bx 0, arrayReal bx 1, arrayReal bx 2, arrayReal bx 3) of
        (Inr a0, Inr a1, Inr a2, Inr a3) \<Rightarrow>
          Inr [(''x'', rnd (a0 / k)), (''y'', rnd (a1 / k)),
               (''w'', rnd (\<bar>rnd (a0 - a2)\<bar> / k)), (''h'', rnd (\<bar>rnd (a1 - a3)\<bar> / k)),
               (''llx'', min a0 a2), (''lly'', min a1 a3), (''urx'', max a0 a2), (''ury'', max a1 a3)]
      | _ \<Rightarrow> Inl (Panic ''index out of range''))"

text \<open>\<^verbatim>\<open>getPageBox\<close>: the box of the page or, through \<^verbatim>\<open>/Parent\<close>, of an ancestor; the
  empty map when there is none. The first argument bounds the walk up the page tree (a
  \<^verbatim>\<open>/Parent\<close> cycle has no end) and is the bound of \<open>ResolveObject\<close>.\<close>

primrec getPageBox :: "nat \<Rightarrow> PdfValue \<Rightarrow> string \<Rightarrow> real \<Rightarrow> PdfReader \<Rightarrow> (error + box) \<times> PdfReader" where
  "getPageBox 0 page boxIndex k = efail OutOfFuel"
| "getPageBox (Suc n) page boxIndex k =
     ebind (elift (valueDictionary (Some page))) (\<lambda>dict.
       case map_of dict boxIndex of
         Some box0 \<Rightarrow>
           ebind (if vType box0 = PDFTypeObjRef then
                    ebind (ereplace ''Failed to resolve object'' (ResolveObject (Suc n) box0)) (\<lambda>tmpBox.
                    elift (deref (vValue tmpBox)))
                  else eret box0) (\<lambda>bx.
           if vType bx = PDFTypeArray then (\<lambda>pr. (boxOfArray (round64 pr) bx k, pr))
           else efail (Errorf ''Could not get page box''))
       | None \<Rightarrow>
           (case map_of dict ''/Parent'' of
              Some par \<Rightarrow>
                ebind (ewrap ''Could not resolve parent object'' (ResolveObject (Suc n) par)) (\<lambda>parentObj.
                getPageBox n parentObj boxIndex k)
            | None \<Rightarrow> eret []))"

text \<open>The loop of \<^verbatim>\<open>GetPageBoxes\<close> over \<^verbatim>\<open>pr.availableBoxes\<close>; an error of \<^verbatim>\<open>getPageBox\<close>
  is replaced by a new one, a panic goes on as it is.\<close>

fun pageBoxesLoop ::
  "nat \<Rightarrow> PdfValue \<Rightarrow> real \<Rightarrow> string list \<Rightarrow> (string \<times> box) list \<Rightarrow> PdfReader
   \<Rightarrow> (error + (string \<times> box) list) \<times> PdfReader" where
  "pageBoxesLoop n page k [] result pr = (Inr result, pr)"
| "pageBoxesLoop n page k (name # names) result pr =
     (case getPageBox n page name k pr of
        (Inl e, pr') \<Rightarrow> (Inl (replaceErr ''failed to get page box'' e), pr')
      | (Inr bx, pr') \<Rightarrow> pageBoxesLoop n page k names (result @ [(name, bx)]) pr')"

text \<open>\<^verbatim>\<open>GetPageBoxes\<close>.\<close>

definition GetPageBoxes :: "nat \<Rightarrow> int \<Rightarrow> real \<Rightarrow> PdfReader \<Rightarrow> (error + (string \<times> box) list) \<times> PdfReader" where
  "GetPageBoxes n pageno k =
     ebind (pageAt pageno) (\<lambda>pg.
     ebind (ereplace ''failed to resolve page object'' (ResolveObjectPtr n pg)) (\<lambda>page.
     (\<lambda>pr. pageBoxesLoop n page k (availableBoxes pr) [] pr)))"

text \<open>\<^verbatim>\<open>GetAllPageBoxes\<close>: the loop \<^verbatim>\<open>for i := 1; i <= len(pr.pages); i++\<close>, with the pages
  still to do.\<close>

fun allPageBoxesLoop ::
  "nat \<Rightarrow> real \<Rightarrow> int list \<Rightarrow> (int \<times> (string \<times> box) list) list \<Rightarrow> PdfReader
   \<Rightarrow> (error + (int \<times> (string \<times> box) list) list) \<times> PdfReader" where
  "allPageBoxesLoop n k [] result pr = (Inr result, pr)"
| "allPageBoxesLoop n k (i # is) result pr =
     (case GetPageBoxes n i k pr of
        (Inl e, pr') \<Rightarrow> (Inl (wrapErr ''Unable to get page box'' e), pr')
      | (Inr bs, pr') \<Rightarrow> allPageBoxesLoop n k is (result @ [(i, bs)]) pr')"

definition GetAllPageBoxes ::
  "nat \<Rightarrow> real \<Rightarrow> PdfReader \<Rightarrow> (error + (int \<times> (string \<times> box) list) list) \<times> PdfReader" where
  "GetAllPageBoxes n k pr = allPageBoxesLoop n k [1..int (length (pages pr))] [] pr"

text \<open>\<^verbatim>\<open>_getPageRotation\<close>: the \<^verbatim>\<open>/Rotate\<close> of the page or of an ancestor, and
  \<^verbatim>\<open>&PdfValue{Int: 0}\<close> when there is none. The first argument bounds the walk through
  \<^verbatim>\<open>/Parent\<close> and is the bound of \<open>ResolveObject\<close>. A \<^verbatim>\<open>nil\<close> result of the recursive call
  is dereferenced by \<^verbatim>\<open>res.Type\<close>.\<close>

primrec getPageRotation_rec :: "nat \<Rightarrow> PdfValue option \<Rightarrow> PdfReader \<Rightarrow> (error + PdfValue option) \<times> PdfReader" where
  "getPageRotation_rec 0 page0 = efail OutOfFuel"
| "getPageRotation_rec (Suc n) page0 =
     ebind (ereplace ''Failed to resolve page object'' (ResolveObjectPtr (Suc n) page0)) (\<lambda>page.
     ebind (elift (valueDictionary (Some page))) (\<lambda>dict.
       case map_of dict ''/Rotate'' of
         Some rot \<Rightarrow>
           ebind (ereplace ''Failed to resolve rotate object'' (ResolveObject (Suc n) rot)) (\<lambda>res.
           eret (valueOfObject res))
       | None \<Rightarrow>
           (case map_of dict ''/Parent'' of
              Some par \<Rightarrow>
                ebind (ewrap ''Failed to get page rotation for parent''
                         (getPageRotation_rec n (Some par))) (\<lambda>res0.
                ebind (elift (deref res0)) (\<lambda>res.
                eret (valueOfObject res)))
            | None \<Rightarrow> eret (Some (set_Int 0 PdfValue0)))))"

text \<open>\<^verbatim>\<open>GetPageRotation\<close>.\<close>

definition GetPageRotation :: "nat \<Rightarrow> int \<Rightarrow> PdfReader \<Rightarrow> (error + PdfValue option) \<times> PdfReader" where
  "GetPageRotation n pageno =
     ebind (pageAt pageno) (\<lambda>page. getPageRotation_rec n page)"

section \<open>The writer (\<^verbatim>\<open>writer.go\<close>)\<close>

text \<open>Go's \<^verbatim>\<open>%\<close> and \<^verbatim>\<open>/\<close> on integers truncate towards zero.\<close>

definition go_div :: "int \<Rightarrow> int \<Rightarrow> int" where
  "go_div a b = sgn a * sgn b * (\<bar>a\<bar> div \<bar>b\<bar>)"

definition go_mod :: "int \<Rightarrow> int \<Rightarrow> int" where
  "go_mod a b = a - b * go_div a b"

text \<open>\<^verbatim>\<open>fmt.Sprintf("%d", i)\<close>.\<close>

function itoa_nat :: "nat \<Rightarrow> string" where
  "itoa_nat n = (if n < 10 then [char_of (48 + n)] else itoa_nat (n div 10) @ [char_of (48 + n mod 10)])"
  by pat_completeness auto
termination
  by (relation "measure id") auto

declare itoa_nat.simps [simp del]

definition itoa :: "int \<Rightarrow> string" where
  "itoa i = (if i < 0 then CHR ''-'' # itoa_nat (nat (- i)) else itoa_nat (nat i))"

text \<open>A Go map that is written to, as an association list: \<^verbatim>\<open>m[k] = v\<close>.\<close>

fun mapSet :: "'k \<Rightarrow> 'v \<Rightarrow> ('k \<times> 'v) list \<Rightarrow> ('k \<times> 'v) list" where
  "mapSet k v [] = [(k, v)]"
| "mapSet k v ((k', v') # m) = (if k = k' then (k, v) # m else (k', v') # mapSet k v m)"

text \<open>
  \<^verbatim>\<open>type PdfObjectID struct\<close>. The maps \<^verbatim>\<open>writtenObjs\<close> and \<^verbatim>\<open>writtenObjPos\<close> have
  pointers to these structs as keys, so two of them with the same \<^verbatim>\<open>id\<close> are two keys:
  \<open>ptr\<close> is the address, a fresh number for every \<^verbatim>\<open>new(PdfObjectID)\<close>.
\<close>

record PdfObjectID =
  ptr :: nat
  oid :: int
  hash :: string

text \<open>\<^verbatim>\<open>type PdfObject struct\<close> with its two pointers, \<^verbatim>\<open>id\<close> (here \<open>pid\<close>) and
  \<^verbatim>\<open>buffer\<close>; \<^verbatim>\<open>new(PdfObject)\<close> has both \<^verbatim>\<open>nil\<close>.\<close>

record PdfObject =
  pid :: "PdfObjectID option"
  buffer :: "string option"

text \<open>\<^verbatim>\<open>type PdfTemplate struct\<close> (the fields \<^verbatim>\<open>ID\<close> and \<^verbatim>\<open>Reader\<close> are never read).
  \<^verbatim>\<open>Box\<close> is \<open>None\<close> for the \<^verbatim>\<open>nil\<close> map. The fields carry a leading \<open>t\<close>.\<close>

record PdfTemplate =
  tResources :: "PdfValue option"
  tBuffer :: string
  tBox :: "box option"
  tX :: real
  tY :: real
  tW :: real
  tH :: real
  tRotation :: int
  tN :: int

text \<open>
  \<^verbatim>\<open>type PdfWriter struct\<close>. The reader \<^verbatim>\<open>r\<close> (here \<open>rdr\<close>) is a pointer to the one reader
  that the importer and the writer share; the model keeps the reader's state in this
  field.
  \<^verbatim>\<open>objStack\<close> is an association list; it holds \<^verbatim>\<open>nil\<close> (\<open>None\<close>) for an entry that is
  done, which a look-up (\<open>stackGet\<close>) does not tell from an absent key. \<^verbatim>\<open>NextObjectID\<close> is a callback; the model takes its
  result to depend on the number of calls made so far (\<open>idCalls\<close>). \<open>nextPtr\<close> is the next
  fresh address. \<open>useHash\<close> is read by the revision of the writer that has it only. The
  library functions are fields: \<open>sha1hex\<close> (SHA-1 in hexadecimal), \<open>fmtFloat p x\<close>
  (\<^verbatim>\<open>%.pF\<close>), \<open>zlibCompress\<close>, \<open>mathCos\<close>, \<open>mathSin\<close> and \<open>mathPi\<close> (the constant
  \<^verbatim>\<open>math.Pi\<close> as a \<^verbatim>\<open>float64\<close>), and \<open>round64w\<close>, the rounding of a real number to
  \<^verbatim>\<open>float64\<close>.
\<close>

record PdfWriter =
  rdr :: "PdfReader option"
  tpls :: "PdfTemplate option list"
  nextOjbID :: int
  objStack :: "(int \<times> PdfValue option) list"
  doOobjStack :: "int \<Rightarrow> PdfValue option"
  writtenObjs :: "(PdfObjectID \<times> string) list"
  writtenObjPos :: "(PdfObjectID \<times> (nat \<times> string) list) list"
  currentObj :: PdfObject
  tplIDOffset :: int
  NextObjectID :: "(nat \<Rightarrow> int) option"
  idCalls :: nat
  nextPtr :: nat
  useHash :: bool
  sha1hex :: "string \<Rightarrow> string"
  fmtFloat :: "nat \<Rightarrow> real \<Rightarrow> string"
  zlibCompress :: "string \<Rightarrow> string"
  round64w :: "real \<Rightarrow> real"
  mathCos :: "real \<Rightarrow> real"
  mathSin :: "real \<Rightarrow> real"
  mathPi :: real

text \<open>\<^verbatim>\<open>pw.objStack[i]\<close>.\<close>

definition stackGet :: "(int \<times> PdfValue option) list \<Rightarrow> int \<Rightarrow> PdfValue option" where
  "stackGet m i = (case map_of m i of None \<Rightarrow> None | Some v \<Rightarrow> v)"

text \<open>A call of a reader method through \<^verbatim>\<open>pw.r\<close>.\<close>

definition on_r :: "(PdfReader \<Rightarrow> (error + 'a) \<times> PdfReader) \<Rightarrow> PdfWriter \<Rightarrow> (error + 'a) \<times> PdfWriter" where
  "on_r m pw =
     (case rdr pw of
        None \<Rightarrow> (Inl (Panic ''nil pointer dereference''), pw)
      | Some rd \<Rightarrow> (case m rd of (x, rd') \<Rightarrow> (x, pw\<lparr>rdr := Some rd'\<rparr>)))"

text \<open>\<^verbatim>\<open>intersectBox\<close>: a copy of \<^verbatim>\<open>bx\<close>, clipped to the media box; \<open>rnd\<close> is the rounding
  to \<^verbatim>\<open>float64\<close> after the two subtractions.\<close>

definition intersectBox :: "(real \<Rightarrow> real) \<Rightarrow> box \<Rightarrow> box \<Rightarrow> box" where
  "intersectBox rnd bx mediabox =
     (let newbox = bx;
          newbox = (if boxGet bx ''lly'' < boxGet mediabox ''lly''
                    then boxSet ''lly'' (boxGet mediabox ''lly'') newbox else newbox);
          newbox = (if boxGet bx ''llx'' < boxGet mediabox ''llx''
                    then boxSet ''llx'' (boxGet mediabox ''llx'') newbox else newbox);
          newbox = (if boxGet bx ''ury'' > boxGet mediabox ''ury''
                    then boxSet ''ury'' (boxGet mediabox ''ury'') newbox else newbox);
          newbox = (if boxGet bx ''urx'' > boxGet mediabox ''urx''
                    then boxSet ''urx'' (boxGet mediabox ''urx'') newbox else newbox);
          newbox = boxSet ''x'' (boxGet newbox ''llx'') newbox;
          newbox = boxSet ''y'' (boxGet newbox ''lly'') newbox;
          newbox = boxSet ''w'' (rnd (boxGet newbox ''urx'' - boxGet newbox ''llx'')) newbox;
          newbox = boxSet ''h'' (rnd (boxGet newbox ''ury'' - boxGet newbox ''lly'')) newbox
      in newbox)"

text \<open>\<^verbatim>\<open>pb[p][boxname]\<close>: \<open>None\<close> (the \<^verbatim>\<open>nil\<close> map) when the page or the name is not a
  key.\<close>

definition pageBox :: "(int \<times> (string \<times> box) list) list \<Rightarrow> int \<Rightarrow> string \<Rightarrow> box option" where
  "pageBox pb p boxname = map_of (pageBoxesGet pb p) boxname"

definition boxLen :: "box option \<Rightarrow> nat" where
  "boxLen bx = (case bx of None \<Rightarrow> 0 | Some b \<Rightarrow> length b)"

text \<open>\<^verbatim>\<open>GetPDFBoxDimensions\<close>.\<close>

definition GetPDFBoxDimensions :: "nat \<Rightarrow> int \<Rightarrow> string \<Rightarrow> PdfWriter \<Rightarrow> (error + box option) \<times> PdfWriter" where
  "GetPDFBoxDimensions n p boxname =
     ebind (on_r GetNumPages) (\<lambda>numPages.
     if p > numPages then efail (Errorf ''cannot get the page number of the PDF'')
     else
     ebind (on_r (GetAllPageBoxes n 1)) (\<lambda>pb.
     let bx = pageBox pb p boxname in
     if boxLen bx = 0 then
       if boxname = ''/CropBox'' then eret (pageBox pb p ''/MediaBox'')
       else if boxname = ''/ArtBox'' \<or> boxname = ''/BleedBox'' \<or> boxname = ''/TrimBox''
       then eret (pageBox pb p ''/CropBox'')
       else efail (Errorf ''could not find the box dimensions for the image'')
     else if boxname = ''/MediaBox'' then eret bx
     else (\<lambda>pw. (Inr (Some (intersectBox (round64w pw) (the_default [] bx)
                               (the_default [] (pageBox pb p ''/MediaBox'')))), pw))))"

text \<open>\<^verbatim>\<open>tpl.Box["w"]\<close> on a map that may be \<^verbatim>\<open>nil\<close>.\<close>

definition tplBoxGet :: "box option \<Rightarrow> string \<Rightarrow> real" where
  "tplBoxGet bx k = boxGet (the_default [] bx) k"

text \<open>The end of \<^verbatim>\<open>ImportPage\<close>: \<^verbatim>\<open>angle := rotation.Int % 360\<close> and the block
  \<^verbatim>\<open>if angle != 0 { ... }\<close> that sets \<^verbatim>\<open>tpl.W\<close>, \<^verbatim>\<open>tpl.H\<close> and \<^verbatim>\<open>tpl.Rotation\<close>.\<close>

definition normalizeRotation :: "int \<Rightarrow> PdfTemplate \<Rightarrow> PdfTemplate" where
  "normalizeRotation rotationInt tpl =
     (let angle = go_mod rotationInt 360 in
      if angle \<noteq> 0 then
        (let steps = go_div angle 90;
             w = tW tpl;
             h = tH tpl;
             tpl = (if go_mod steps 2 = 0 then tpl\<lparr>tW := w, tH := h\<rparr> else tpl\<lparr>tW := h, tH := w\<rparr>);
             angle = (if angle < 0 then angle + 360 else angle)
         in tpl\<lparr>tRotation := angle * - 1\<rparr>)
      else tpl)"

text \<open>\<^verbatim>\<open>PdfWriter.ImportPage\<close>. The error of \<^verbatim>\<open>GetPDFBoxDimensions\<close> is returned as it
  is. The result is the index of the new template.\<close>

definition ImportPage :: "nat \<Rightarrow> PdfReader \<Rightarrow> int \<Rightarrow> string \<Rightarrow> PdfWriter \<Rightarrow> (error + int) \<times> PdfWriter" where
  "ImportPage n rd pageno boxName =
     ebind (\<lambda>pw. (Inr (), pw\<lparr>rdr := Some rd\<rparr>)) (\<lambda>u.
     ebind (ewrap ''Failed to get page resources'' (on_r (GetPageResources n pageno))) (\<lambda>pageResources.
     ebind (ewrap ''Failed to get content'' (on_r (GetContent n pageno))) (\<lambda>content.
     ebind (GetPDFBoxDimensions n pageno boxName) (\<lambda>bx.
     let tpl = \<lparr>tResources = pageResources, tBuffer = content, tBox = bx, tX = 0, tY = 0,
                tW = tplBoxGet bx ''w'', tH = tplBoxGet bx ''h'', tRotation = 0, tN = 0\<rparr> in
     ebind (ewrap ''Failed to get page rotation'' (on_r (GetPageRotation n pageno))) (\<lambda>rotation0.
     ebind (elift (deref rotation0)) (\<lambda>rotation.
     (\<lambda>pw. (Inr (int (length (tpls pw))),
             pw\<lparr>tpls := tpls pw @ [Some (normalizeRotation (vInt rotation) tpl)]\<rparr>))))))))"

subsection \<open>Emission\<close>

text \<open>\<^verbatim>\<open>pw.currentObj.buffer.WriteString(s)\<close>; the buffer of \<^verbatim>\<open>new(PdfObject)\<close> is \<^verbatim>\<open>nil\<close>.\<close>

definition WriteString :: "string \<Rightarrow> PdfWriter \<Rightarrow> (error + unit) \<times> PdfWriter" where
  "WriteString str pw =
     (case buffer (currentObj pw) of
        None \<Rightarrow> (Inl (Panic ''nil pointer dereference''), pw)
      | Some b \<Rightarrow> (Inr (), pw\<lparr>currentObj := (currentObj pw)\<lparr>buffer := Some (b @ str)\<rparr>\<rparr>))"

text \<open>\<^verbatim>\<open>out\<close> and \<^verbatim>\<open>straightOut\<close>.\<close>

definition out :: "string \<Rightarrow> PdfWriter \<Rightarrow> (error + unit) \<times> PdfWriter" where
  "out str = ebind (WriteString str) (\<lambda>u. WriteString [CHR 0x0A])"

definition straightOut :: "string \<Rightarrow> PdfWriter \<Rightarrow> (error + unit) \<times> PdfWriter" where
  "straightOut str = WriteString str"

text \<open>\<^verbatim>\<open>shaOfInt\<close>: the hash of \<^verbatim>\<open>fmt.Sprintf("%d-%s", i, pw.r.SourceFile)\<close>.\<close>

definition shaOfInt :: "int \<Rightarrow> PdfWriter \<Rightarrow> (error + string) \<times> PdfWriter" where
  "shaOfInt i pw =
     (case rdr pw of
        None \<Rightarrow> (Inl (Panic ''nil pointer dereference''), pw)
      | Some rd \<Rightarrow> (Inr (sha1hex pw (itoa i @ ''-'' @ SourceFile rd)), pw))"

text \<open>The first lines of \<^verbatim>\<open>newObj\<close>, for \<^verbatim>\<open>objID < 0\<close>: the next id comes from the
  callback when there is one, from the counter otherwise.\<close>

definition nextID :: "PdfWriter \<Rightarrow> PdfWriter" where
  "nextID pw =
     (case NextObjectID pw of
        Some cb \<Rightarrow> pw\<lparr>nextOjbID := cb (idCalls pw), idCalls := idCalls pw + 1\<rparr>
      | None \<Rightarrow> pw\<lparr>nextOjbID := nextOjbID pw + 1\<rparr>)"

text \<open>\<^verbatim>\<open>newObj\<close>. The new \<^verbatim>\<open>PdfObjectID\<close> gets a fresh address.\<close>

definition newObj :: "int \<Rightarrow> bool \<Rightarrow> PdfWriter \<Rightarrow> (error + unit) \<times> PdfWriter" where
  "newObj objID0 onlyNewObj pw0 =
     (let pw = (if objID0 < 0 then nextID pw0 else pw0);
          objID = (if objID0 < 0 then nextOjbID pw else objID0)
      in if onlyNewObj then (Inr (), pw)
         else
           (case shaOfInt objID pw of
              (Inl e, pw1) \<Rightarrow> (Inl e, pw1)
            | (Inr sha, pw1) \<Rightarrow>
                (let k = \<lparr>ptr = nextPtr pw1, oid = objID, hash = sha\<rparr>
                 in (Inr (),
                     pw1\<lparr>currentObj := \<lparr>pid = Some k, buffer = Some []\<rparr>,
                         nextPtr := nextPtr pw1 + 1,
                         writtenObjPos := mapSet k [] (writtenObjPos pw1)\<rparr>))))"

text \<open>\<^verbatim>\<open>endObj\<close>.\<close>

definition endObj :: "PdfWriter \<Rightarrow> (error + unit) \<times> PdfWriter" where
  "endObj pw =
     (case (pid (currentObj pw), buffer (currentObj pw)) of
        (Some k, Some b) \<Rightarrow> (Inr (), pw\<lparr>writtenObjs := mapSet k b (writtenObjs pw)\<rparr>)
      | _ \<Rightarrow> (Inl (Panic ''nil pointer dereference''), pw))"

text \<open>
  \<^verbatim>\<open>outObjRef\<close>: the position of the reference in the buffer is recorded under the hash
  of the new id, then the id is written, then \<^verbatim>\<open>" 0 R "\<close>. Writing into
  \<^verbatim>\<open>pw.writtenObjPos[pw.currentObj.id]\<close> panics when that map is \<^verbatim>\<open>nil\<close>.
\<close>

definition recordPos :: "string \<Rightarrow> PdfWriter \<Rightarrow> (error + unit) \<times> PdfWriter" where
  "recordPos sha pw =
     (case (pid (currentObj pw), buffer (currentObj pw)) of
        (Some k, Some b) \<Rightarrow>
          (case map_of (writtenObjPos pw) k of
             None \<Rightarrow> (Inl (Panic ''assignment to entry in nil map''), pw)
           | Some posmap \<Rightarrow>
               (Inr (), pw\<lparr>writtenObjPos := mapSet k (mapSet (length b) sha posmap) (writtenObjPos pw)\<rparr>))
      | _ \<Rightarrow> (Inl (Panic ''nil pointer dereference''), pw))"

definition outObjRef :: "int \<Rightarrow> PdfWriter \<Rightarrow> (error + unit) \<times> PdfWriter" where
  "outObjRef objID =
     ebind (shaOfInt objID) (\<lambda>sha.
     ebind (recordPos sha) (\<lambda>u.
     ebind (WriteString (itoa objID)) (\<lambda>u.
     WriteString '' 0 R '')))"

text \<open>The \<^verbatim>\<open>PDFTypeObjRef\<close> case of \<^verbatim>\<open>writeValue\<close>: a source id seen for the first time gets
  a new id and an entry in both stacks; the reference is written with the new id.\<close>

definition writeObjRef :: "PdfValue \<Rightarrow> PdfWriter \<Rightarrow> (error + unit) \<times> PdfWriter" where
  "writeObjRef val =
     ebind (\<lambda>pw. if doOobjStack pw (vID val) = None then
                   ebind (newObj (- 1) True) (\<lambda>u pw.
                     (let e = set_NewID (nextOjbID pw) (set_ID (vID val) (set_Gen (vGen val)
                                (set_Type PDFTypeObjRef PdfValue0)))
                      in (Inr (), pw\<lparr>objStack := mapSet (vID val) (Some e) (objStack pw),
                                      doOobjStack := (doOobjStack pw)(vID val \<mapsto> e)\<rparr>))) pw
                 else (Inr (), pw)) (\<lambda>u.
     ebind (\<lambda>pw. (deref (doOobjStack pw (vID val)), pw)) (\<lambda>e.
     outObjRef (vNewID e)))"

text \<open>
  \<^verbatim>\<open>writeValue\<close>, with its loops over the elements of an array and over the entries of
  a dictionary (in the order of the association list). A type that the \<^verbatim>\<open>switch\<close> does
  not name writes nothing.
\<close>

fun writeValue :: "PdfValue \<Rightarrow> PdfWriter \<Rightarrow> (error + unit) \<times> PdfWriter"
  and writeArray :: "PdfValue list \<Rightarrow> PdfWriter \<Rightarrow> (error + unit) \<times> PdfWriter"
  and writeDictionary :: "(string \<times> PdfValue) list \<Rightarrow> PdfWriter \<Rightarrow> (error + unit) \<times> PdfWriter"
where
  "writeValue (PdfValue ty str tk i rl b d a sid nid g v st bs) pw =
     (if ty = PDFTypeToken then straightOut (tk @ '' '') pw
      else if ty = PDFTypeNumeric then straightOut (itoa i @ '' '') pw
      else if ty = PDFTypeReal then straightOut (fmtFloat pw 6 rl @ '' '') pw
      else if ty = PDFTypeArray then
        (case straightOut ''['' pw of
           (Inl e, pw1) \<Rightarrow> (Inl e, pw1)
         | (Inr u, pw1) \<Rightarrow>
             (case writeArray a pw1 of
                (Inl e, pw2) \<Rightarrow> (Inl e, pw2)
              | (Inr u, pw2) \<Rightarrow> out '']'' pw2))
      else if ty = PDFTypeDictionary then
        (case straightOut ''<<'' pw of
           (Inl e, pw1) \<Rightarrow> (Inl e, pw1)
         | (Inr u, pw1) \<Rightarrow>
             (case writeDictionary d pw1 of
                (Inl e, pw2) \<Rightarrow> (Inl e, pw2)
              | (Inr u, pw2) \<Rightarrow> straightOut ''>>'' pw2))
      else if ty = PDFTypeObjRef then
        writeObjRef (PdfValue ty str tk i rl b d a sid nid g v st bs) pw
      else if ty = PDFTypeString then straightOut (''('' @ str @ '')'') pw
      else if ty = PDFTypeStream then
        (case v of
           None \<Rightarrow> (Inl (Panic ''nil pointer dereference''), pw)
         | Some val \<Rightarrow>
             (case writeValue val pw of
                (Inl e, pw1) \<Rightarrow> (Inl e, pw1)
              | (Inr u, pw1) \<Rightarrow>
                  ebind (out ''stream'') (\<lambda>u.
                  ebind (elift (deref st)) (\<lambda>s.
                  ebind (out (vBytes s)) (\<lambda>u. out ''endstream''))) pw1))
      else if ty = PDFTypeHex then straightOut (''<'' @ str @ ''>'') pw
      else if ty = PDFTypeBoolean then straightOut (if b then ''true'' else ''false'') pw
      else if ty = PDFTypeNull then straightOut ''null '' pw
      else (Inr (), pw))"
| "writeArray [] pw = (Inr (), pw)"
| "writeArray (x # xs) pw =
     (case writeValue x pw of
        (Inl e, pw1) \<Rightarrow> (Inl e, pw1)
      | (Inr u, pw1) \<Rightarrow> writeArray xs pw1)"
| "writeDictionary [] pw = (Inr (), pw)"
| "writeDictionary ((k, x) # kxs) pw =
     (case straightOut (k @ '' '') pw of
        (Inl e, pw1) \<Rightarrow> (Inl e, pw1)
      | (Inr u, pw1) \<Rightarrow>
          (case writeValue x pw1 of
             (Inl e, pw2) \<Rightarrow> (Inl e, pw2)
           | (Inr u, pw2) \<Rightarrow> writeDictionary kxs pw2))"

text \<open>
  The inner loop \<^verbatim>\<open>for i := 0; i < 9999; i++\<close> of \<^verbatim>\<open>putImportedObjects\<close>, from \<open>i\<close> on,
  with the running \<^verbatim>\<open>atLeastOne\<close>. \<open>body i v\<close> stands for the lines from
  \<^verbatim>\<open>nObj, err = rd.ResolveObject(v)\<close> to \<^verbatim>\<open>pw.objStack[k] = nil\<close>.
\<close>

function putImportedObjects_ids ::
  "(int \<Rightarrow> PdfValue \<Rightarrow> PdfWriter \<Rightarrow> (error + unit) \<times> PdfWriter) \<Rightarrow> int \<Rightarrow> bool \<Rightarrow> PdfWriter
   \<Rightarrow> (error + bool) \<times> PdfWriter" where
  "putImportedObjects_ids body i atLeastOne pw =
     (if i < 9999 then
        (case stackGet (objStack pw) i of
           None \<Rightarrow> putImportedObjects_ids body (i + 1) atLeastOne pw
         | Some v \<Rightarrow>
             (case body i v pw of
                (Inl e, pw') \<Rightarrow> (Inl e, pw')
              | (Inr u, pw') \<Rightarrow> putImportedObjects_ids body (i + 1) True pw'))
      else (Inr atLeastOne, pw))"
  by pat_completeness auto
termination
  by (relation "measure (\<lambda>(body, i, atLeastOne, pw). nat (9999 - i))") auto

declare putImportedObjects_ids.simps [simp del]

text \<open>
  The body of that loop in \<^verbatim>\<open>writer.go\<close>. \<^verbatim>\<open>rd\<close> is \<^verbatim>\<open>pw.r\<close> at the only call of
  \<^verbatim>\<open>putImportedObjects\<close>; \<open>n\<close> is the bound of \<open>ResolveObject\<close>. \<^verbatim>\<open>nObj.Value\<close> may be
  \<^verbatim>\<open>nil\<close>, and \<^verbatim>\<open>writeValue\<close> then panics.
\<close>

definition putImportedObject :: "nat \<Rightarrow> int \<Rightarrow> PdfValue \<Rightarrow> PdfWriter \<Rightarrow> (error + unit) \<times> PdfWriter" where
  "putImportedObject n i v =
     ebind (ewrap '' Unable to resolve object'' (on_r (ResolveObject n v))) (\<lambda>nObj.
     ebind (newObj (vNewID v) False) (\<lambda>u.
     ebind (if vType nObj = PDFTypeStream then writeValue nObj
            else ebind (elift (deref (vValue nObj))) writeValue) (\<lambda>u.
     ebind endObj (\<lambda>u pw.
     (Inr (), pw\<lparr>objStack := mapSet i None (objStack pw)\<rparr>)))))"

text \<open>\<^verbatim>\<open>putImportedObjects\<close>: the outer loop \<^verbatim>\<open>for { ... if !atLeastOne { break } }\<close>, of at
  most \<open>m\<close> rounds (\<open>OutOfFuel\<close> beyond).\<close>

primrec putImportedObjects_rounds ::
  "(int \<Rightarrow> PdfValue \<Rightarrow> PdfWriter \<Rightarrow> (error + unit) \<times> PdfWriter) \<Rightarrow> nat \<Rightarrow> PdfWriter
   \<Rightarrow> (error + unit) \<times> PdfWriter" where
  "putImportedObjects_rounds body 0 = efail OutOfFuel"
| "putImportedObjects_rounds body (Suc m) =
     ebind (putImportedObjects_ids body 0 False) (\<lambda>atLeastOne.
     if atLeastOne then putImportedObjects_rounds body m else eret ())"

definition putImportedObjects :: "nat \<Rightarrow> PdfWriter \<Rightarrow> (error + unit) \<times> PdfWriter" where
  "putImportedObjects n = putImportedObjects_rounds (putImportedObject n) n"

text \<open>
  The lines of \<^verbatim>\<open>PutFormXobjects\<close> that compute the matrix of a template: \<open>(c, s, tx, ty)\<close>.
  \<^verbatim>\<open>float64(tpl.Rotation) * math.Pi / 180.0\<close> rounds three times.
\<close>

definition tplMatrix :: "PdfWriter \<Rightarrow> PdfTemplate \<Rightarrow> real \<times> real \<times> real \<times> real" where
  "tplMatrix pw tpl =
     (let bx = tBox tpl in
      if bx \<noteq> None then
        (if tRotation tpl \<noteq> 0 then
           (let angle = round64w pw (round64w pw (round64w pw (of_int (tRotation tpl)) * mathPi pw) / 180);
                c = mathCos pw angle;
                s = mathSin pw angle
            in if tRotation tpl = - 90 then (c, s, - tplBoxGet bx ''lly'', tplBoxGet bx ''urx'')
               else if tRotation tpl = - 180 then (c, s, tplBoxGet bx ''urx'', tplBoxGet bx ''ury'')
               else if tRotation tpl = - 270 then (c, s, tplBoxGet bx ''ury'', - tplBoxGet bx ''llx'')
               else (c, s, - tplBoxGet bx ''llx'', - tplBoxGet bx ''lly''))
         else (1, 0, - tplBoxGet bx ''llx'', - tplBoxGet bx ''lly''))
      else (1, 0, round64w pw (- tplBoxGet bx ''x'' * 2), round64w pw (tplBoxGet bx ''y'' * 2)))"

text \<open>
  The body of the loop of \<^verbatim>\<open>PutFormXobjects\<close> for the template \<^verbatim>\<open>pw.tpls[i]\<close>; \<open>result\<close> is
  the map of the names to the object ids so far. \<^verbatim>\<open>compress\<close> is \<^verbatim>\<open>true\<close>. \<^verbatim>\<open>tpl\<close> is a
  pointer into \<^verbatim>\<open>pw.tpls\<close>, so \<^verbatim>\<open>tpl.N = pw.nextOjbID\<close> changes the entry of the list.
  \<^verbatim>\<open>new(PdfObjectID)\<close> takes a fresh address.
\<close>

definition putFormXobject ::
  "nat \<Rightarrow> nat \<Rightarrow> (string \<times> PdfObjectID) list \<Rightarrow> PdfWriter
   \<Rightarrow> (error + (string \<times> PdfObjectID) list) \<times> PdfWriter" where
  "putFormXobject n i result pw0 =
     (case tpls pw0 ! i of
        None \<Rightarrow> (Inl (Errorf ''Template is nil''), pw0)
      | Some tpl \<Rightarrow>
         (let p = zlibCompress pw0 (tBuffer tpl) in
          ebind (newObj (- 1) False) (\<lambda>u pw1.
          (let cN = nextOjbID pw1;
               pw2 = pw1\<lparr>tpls := (tpls pw1)[i := Some (tpl\<lparr>tN := cN\<rparr>)]\<rparr>
           in ebind (shaOfInt cN) (\<lambda>sha pw3.
              (let pdfObjID = \<lparr>ptr = nextPtr pw3, oid = cN, hash = sha\<rparr>;
                   result' = mapSet (''/GOFPDITPL'' @ itoa (int i + tplIDOffset pw3)) pdfObjID result;
                   bx = tBox tpl;
                   f2 = fmtFloat pw3 2;
                   f5 = fmtFloat pw3 5
               in ebind (out (''<<'' @ ''/Filter /FlateDecode '' @ ''/Type /XObject'')) (\<lambda>u.
                  ebind (out ''/Subtype /Form'') (\<lambda>u.
                  ebind (out ''/FormType 1'') (\<lambda>u.
                  ebind (out (''/BBox ['' @ f2 (tplBoxGet bx ''llx'') @ '' '' @ f2 (tplBoxGet bx ''lly'')
                              @ '' '' @ f2 (round64w pw3 (tplBoxGet bx ''urx'' + tX tpl))
                              @ '' '' @ f2 (round64w pw3 (tplBoxGet bx ''ury'' - tY tpl)) @ '']'')) (\<lambda>u.
                  ebind (case tplMatrix pw3 tpl of
                           (c, s, tx, ty) \<Rightarrow>
                             if c \<noteq> 1 \<or> s \<noteq> 0 \<or> tx \<noteq> 0 \<or> ty \<noteq> 0 then
                               out (''/Matrix ['' @ f5 c @ '' '' @ f5 s @ '' '' @ f5 (- s) @ '' '' @ f5 c
                                    @ '' '' @ f5 tx @ '' '' @ f5 ty @ '']'')
                             else eret ()) (\<lambda>u.
                  ebind (out ''/Resources '') (\<lambda>u.
                  ebind (case tResources tpl of
                           Some res \<Rightarrow> writeValue res
                         | None \<Rightarrow> efail (Errorf ''Template resources are empty'')) (\<lambda>u pw4.
                  (let nN = nextOjbID pw4 in
                   ebind (out (''/Length '' @ itoa (int (length p)) @ '' >>'')) (\<lambda>u.
                   ebind (out ''stream'') (\<lambda>u.
                   ebind (out p) (\<lambda>u.
                   ebind (out ''endstream'') (\<lambda>u.
                   ebind endObj (\<lambda>u pw5.
                   ebind (ewrap '' Failed to put imported objects'' (putImportedObjects n)) (\<lambda>u.
                   eret result') (pw5\<lparr>nextOjbID := nN\<rparr>))))))
                     (pw4\<lparr>nextOjbID := cN\<rparr>)))))))))
                (pw3\<lparr>nextPtr := nextPtr pw3 + 1\<rparr>))) pw2)) pw0))"

text \<open>The loop \<^verbatim>\<open>for i := 0; i < len(pw.tpls); i++\<close> of \<^verbatim>\<open>PutFormXobjects\<close>, for the indices
  \<open>is\<close> still to do.\<close>

fun putFormXobjects_loop ::
  "nat \<Rightarrow> nat list \<Rightarrow> (string \<times> PdfObjectID) list \<Rightarrow> PdfWriter
   \<Rightarrow> (error + (string \<times> PdfObjectID) list) \<times> PdfWriter" where
  "putFormXobjects_loop n [] result pw = (Inr result, pw)"
| "putFormXobjects_loop n (i # is) result pw =
     (case putFormXobject n i result pw of
        (Inl e, pw') \<Rightarrow> (Inl e, pw')
      | (Inr result', pw') \<Rightarrow> putFormXobjects_loop n is result' pw')"

text \<open>\<^verbatim>\<open>PutFormXobjects\<close>. No template is added while the loop runs, so the indices are
  those of the templates at its start.\<close>

definition PutFormXobjects ::
  "nat \<Rightarrow> PdfReader \<Rightarrow> PdfWriter \<Rightarrow> (error + (string \<times> PdfObjectID) list) \<times> PdfWriter" where
  "PutFormXobjects n rd pw =
     putFormXobjects_loop n [0..<length (tpls pw)] [] (pw\<lparr>rdr := Some rd\<rparr>)"

text \<open>\<^verbatim>\<open>NewPdfWriter\<close>, given the library functions.\<close>

definition NewPdfWriter ::
  "(string \<Rightarrow> string) \<Rightarrow> (nat \<Rightarrow> real \<Rightarrow> string) \<Rightarrow> (string \<Rightarrow> string) \<Rightarrow> (real \<Rightarrow> real)
   \<Rightarrow> (real \<Rightarrow> real) \<Rightarrow> (real \<Rightarrow> real) \<Rightarrow> real \<Rightarrow> PdfWriter" where
  "NewPdfWriter sha fmt zc rnd cs sn mpi =
     \<lparr>rdr = None, tpls = [], nextOjbID = 0, objStack = [], doOobjStack = Map.empty,
      writtenObjs = [], writtenObjPos = [], currentObj = \<lparr>pid = None, buffer = None\<rparr>,
      tplIDOffset = 0, NextObjectID = None, idCalls = 0, nextPtr = 0, useHash = False,
      sha1hex = sha, fmtFloat = fmt, zlibCompress = zc, round64w = rnd, mathCos = cs, mathSin = sn,
      mathPi = mpi\<rparr>"

section \<open>The importer (\<^verbatim>\<open>importer.go\<close>)\<close>

text \<open>\<^verbatim>\<open>type TplInfo struct\<close>; its \<^verbatim>\<open>Writer\<close> is always the importer's one writer.\<close>

record TplInfo =
  tiSourceFile :: string
  TemplateID :: int

text \<open>\<^verbatim>\<open>type Importer struct\<close>. The writer's \<^verbatim>\<open>r\<close> and the importer's \<^verbatim>\<open>reader\<close> point to
  the same reader once a page has been imported: after a call of the writer the model
  copies the reader's state back.\<close>

record Importer =
  reader :: "PdfReader option"
  writer :: PdfWriter
  tplMap :: "int \<Rightarrow> TplInfo option"
  tplN :: int
  importedPages :: "int \<Rightarrow> int option"

definition NewImporter ::
  "(string \<Rightarrow> string) \<Rightarrow> (nat \<Rightarrow> real \<Rightarrow> string) \<Rightarrow> (string \<Rightarrow> string) \<Rightarrow> (real \<Rightarrow> real)
   \<Rightarrow> (real \<Rightarrow> real) \<Rightarrow> (real \<Rightarrow> real) \<Rightarrow> real \<Rightarrow> Importer" where
  "NewImporter sha fmt zc rnd cs sn mpi =
     \<lparr>reader = None, writer = NewPdfWriter sha fmt zc rnd cs sn mpi, tplMap = Map.empty, tplN = 0,
      importedPages = Map.empty\<rparr>"

text \<open>\<^verbatim>\<open>Importer.ImportPage\<close>. With no reader set, the writer's call of
  \<^verbatim>\<open>rd.GetPageResources\<close> dereferences \<^verbatim>\<open>nil\<close>.\<close>

definition Importer_ImportPage :: "nat \<Rightarrow> int \<Rightarrow> string \<Rightarrow> Importer \<Rightarrow> (error + int) \<times> Importer" where
  "Importer_ImportPage n pageno bx imp =
     (case importedPages imp pageno of
        Some t \<Rightarrow> (Inr t, imp)
      | None \<Rightarrow>
          (case reader imp of
             None \<Rightarrow> (Inl (Panic ''nil pointer dereference''), imp)
           | Some rd \<Rightarrow>
               (case ImportPage n rd pageno bx (writer imp) of
                  (Inl e, pw') \<Rightarrow> (Inl e, imp\<lparr>writer := pw', reader := rdr pw'\<rparr>)
                | (Inr res, pw') \<Rightarrow>
                    (Inr (tplN imp),
                     imp\<lparr>writer := pw', reader := rdr pw',
                         tplMap := (tplMap imp)(tplN imp \<mapsto> \<lparr>tiSourceFile = [], TemplateID = res\<rparr>),
                         tplN := tplN imp + 1,
                         importedPages := (importedPages imp)(pageno \<mapsto> tplN imp)\<rparr>))))"

text \<open>A sequence of calls of \<^verbatim>\<open>Importer.ImportPage\<close>, whatever each one returns.\<close>

fun Importer_ImportPages :: "nat \<Rightarrow> (int \<times> string) list \<Rightarrow> Importer \<Rightarrow> Importer" where
  "Importer_ImportPages n [] imp = imp"
| "Importer_ImportPages n ((pageno, bx) # calls) imp =
     Importer_ImportPages n calls (snd (Importer_ImportPage n pageno bx imp))"

section \<open>Example inputs\<close>

text \<open>A reader over the bytes \<open>bs\<close> as \<^verbatim>\<open>init\<close> leaves it, with a given \<^verbatim>\<open>xref\<close> map, no
  pages yet, and library functions that decode nothing.\<close>

definition exampleReader :: "string \<Rightarrow> (int \<Rightarrow> (int \<Rightarrow> int option) option) \<Rightarrow> PdfReader" where
  "exampleReader bs x =
     \<lparr>availableBoxes = [''/MediaBox'', ''/CropBox'', ''/BleedBox'', ''/TrimBox'', ''/ArtBox''],
      stack = [], trailer = None, catalog = None, pages = [], xrefPos = 0,
      xref = x, xrefStream = Map.empty, fbytes = bs, fpos = 0, nBytes = int (length bs),
      SourceFile = [], curPage = 0, alreadyRead = False, pageCount = 0,
      zlibDecode = (\<lambda>bs. None), ParseFloat = (\<lambda>t. 0), round64 = (\<lambda>x. x)\<rparr>"

text \<open>The reference \<^verbatim>\<open>id gen R\<close>.\<close>

definition objRef :: "int \<Rightarrow> int \<Rightarrow> PdfValue" where
  "objRef i g = set_Gen g (set_ID i (set_Type PDFTypeObjRef PdfValue0))"

text \<open>A stream object at offset 0.\<close>

definition exampleObject :: string where
  "exampleObject =
     ''1 0 obj'' @ [CHR 0x0A] @ ''<< /Length 5 /K [1 2 R (a(b)c) <AF> true] >>'' @ [CHR 0x0A]
     @ ''stream'' @ [CHR 0x0A] @ ''hello'' @ [CHR 0x0A] @ ''endstream'' @ [CHR 0x0A]
     @ ''endobj'' @ [CHR 0x0A]"


text \<open>Values as the parser builds them: a number, a name, an array, a dictionary, and a
  resolved object around a value.\<close>

definition numberValue :: "int \<Rightarrow> PdfValue" where
  "numberValue i = set_Real (of_int i) (set_Int i (set_Token (itoa i) (set_Type PDFTypeNumeric PdfValue0)))"

definition tokenValue :: "string \<Rightarrow> PdfValue" where
  "tokenValue t = set_Token t (set_Type PDFTypeToken PdfValue0)"

definition arrayValue :: "PdfValue list \<Rightarrow> PdfValue" where
  "arrayValue xs = set_Array xs (set_Token ''['' (set_Type PDFTypeArray PdfValue0))"

definition dictValue :: "(string \<times> PdfValue) list \<Rightarrow> PdfValue" where
  "dictValue d = set_Dictionary d (set_Token ''<<'' (set_Type PDFTypeDictionary PdfValue0))"

definition objectValue :: "int \<Rightarrow> PdfValue \<Rightarrow> PdfValue" where
  "objectValue i v = set_Value (Some v) (set_Type PDFTypeObject (set_ID i PdfValue0))"

text \<open>A reader with one page, whose dictionary is \<open>d\<close>, and no bytes.\<close>

definition onePageReader :: "(string \<times> PdfValue) list \<Rightarrow> PdfReader" where
  "onePageReader d =
     (exampleReader [] Map.empty)\<lparr>pages := [Some (objectValue 3 (dictValue d))], pageCount := 1\<rparr>"

text \<open>Library functions for the examples: a 40-byte stand-in for the hash, a fixed
  number format, no compression, no rounding, and stand-ins for cosine, sine and
  \<^verbatim>\<open>math.Pi\<close> (the templates of the examples are not rotated, and these are not read).\<close>

definition exampleSha :: "string \<Rightarrow> string" where
  "exampleSha str = take 40 (str @ replicate 40 (CHR ''0''))"

definition exampleWriter :: PdfWriter where
  "exampleWriter = NewPdfWriter exampleSha (\<lambda>p x. ''0'') (\<lambda>bs. bs) (\<lambda>x. x) (\<lambda>x. 1) (\<lambda>x. 0) 3"

definition exampleImporter :: "PdfReader \<Rightarrow> Importer" where
  "exampleImporter rd =
     (NewImporter exampleSha (\<lambda>p x. ''0'') (\<lambda>bs. bs) (\<lambda>x. x) (\<lambda>x. 1) (\<lambda>x. 0) 3)\<lparr>reader := Some rd\<rparr>"

text \<open>A US-letter media box.\<close>

definition letterBox :: PdfValue where
  "letterBox = arrayValue [numberValue 0, numberValue 0, numberValue 612, numberValue 792]"

section \<open>Basic facts about the data model and the glue\<close>

lemma sel_set [simp]:
  "vType (set_Type xType v) = xType"
  "vType (set_String xString v) = vType v"
  "vType (set_Token xToken v) = vType v"
  "vType (set_Int xInt v) = vType v"
  "vType (set_Real xReal v) = vType v"
  "vType (set_Bool xBool v) = vType v"
  "vType (set_Dictionary xDictionary v) = vType v"
  "vType (set_Array xArray v) = vType v"
  "vType (set_ID xID v) = vType v"
  "vType (set_NewID xNewID v) = vType v"
  "vType (set_Gen xGen v) = vType v"
  "vType (set_Value xValue v) = vType v"
  "vType (set_Stream xStream v) = vType v"
  "vType (set_Bytes xBytes v) = vType v"
  "vString (set_Type xType v) = vString v"
  "vString (set_String xString v) = xString"
  "vString (set_Token xToken v) = vString v"
  "vString (set_Int xInt v) = vString v"
  "vString (set_Real xReal v) = vString v"
  "vString (set_Bool xBool v) = vString v"
  "vString (set_Dictionary xDictionary v) = vString v"
  "vString (set_Array xArray v) = vString v"
  "vString (set_ID xID v) = vString v"
  "vString (set_NewID xNewID v) = vString v"
  "vString (set_Gen xGen v) = vString v"
  "vString (set_Value xValue v) = vString v"
  "vString (set_Stream xStream v) = vString v"
  "vString (set_Bytes xBytes v) = vString v"
  "vToken (set_Type xType v) = vToken v"
  "vToken (set_String xString v) = vToken v"
  "vToken (set_Token xToken v) = xToken"
  "vToken (set_Int xInt v) = vToken v"
  "vToken (set_Real xReal v) = vToken v"
  "vToken (set_Bool xBool v) = vToken v"
  "vToken (set_Dictionary xDictionary v) = vToken v"
  "vToken (set_Array xArray v) = vToken v"
  "vToken (set_ID xID v) = vToken v"
  "vToken (set_NewID xNewID v) = vToken v"
  "vToken (set_Gen xGen v) = vToken v"
  "vToken (set_Value xValue v) = vToken v"
  "vToken (set_Stream xStream v) = vToken v"
  "vToken (set_Bytes xBytes v) = vToken v"
  "vInt (set_Type xType v) = vInt v"
  "vInt (set_String xString v) = vInt v"
  "vInt (set_Token xToken v) = vInt v"
  "vInt (set_Int xInt v) = xInt"
  "vInt (set_Real xReal v) = vInt v"
  "vInt (set_Bool xBool v) = vInt v"
  "vInt (set_Dictionary xDictionary v) = vInt v"
  "vInt (set_Array xArray v) = vInt v"
  "vInt (set_ID xID v) = vInt v"
  "vInt (set_NewID xNewID v) = vInt v"
  "vInt (set_Gen xGen v) = vInt v"
  "vInt (set_Value xValue v) = vInt v"
  "vInt (set_Stream xStream v) = vInt v"
  "vInt (set_Bytes xBytes v) = vInt v"
  "vReal (set_Type xType v) = vReal v"
  "vReal (set_String xString v) = vReal v"
  "vReal (set_Token xToken v) = vReal v"
  "vReal (set_Int xInt v) = vReal v"
  "vReal (set_Real xReal v) = xReal"
  "vReal (set_Bool xBool v) = vReal v"
  "vReal (set_Dictionary xDictionary v) = vReal v"
  "vReal (set_Array xArray v) = vReal v"
  "vReal (set_ID xID v) = vReal v"
  "vReal (set_NewID xNewID v) = vReal v"
  "vReal (set_Gen xGen v) = vReal v"
  "vReal (set_Value xValue v) = vReal v"
  "vReal (set_Stream xStream v) = vReal v"
  "vReal (set_Bytes xBytes v) = vReal v"
  "vBool (set_Type xType v) = vBool v"
  "vBool (set_String xString v) = vBool v"
  "vBool (set_Token xToken v) = vBool v"
  "vBool (set_Int xInt v) = vBool v"
  "vBool (set_Real xReal v) = vBool v"
  "vBool (set_Bool xBool v) = xBool"
  "vBool (set_Dictionary xDictionary v) = vBool v"
  "vBool (set_Array xArray v) = vBool v"
  "vBool (set_ID xID v) = vBool v"
  "vBool (set_NewID xNewID v) = vBool v"
  "vBool (set_Gen xGen v) = vBool v"
  "vBool (set_Value xValue v) = vBool v"
  "vBool (set_Stream xStream v) = vBool v"
  "vBool (set_Bytes xBytes v) = vBool v"
  "vDictionary (set_Type xType v) = vDictionary v"
  "vDictionary (set_String xString v) = vDictionary v"
  "vDictionary (set_Token xToken v) = vDictionary v"
  "vDictionary (set_Int xInt v) = vDictionary v"
  "vDictionary (set_Real xReal v) = vDictionary v"
  "vDictionary (set_Bool xBool v) = vDictionary v"
  "vDictionary (set_Dictionary xDictionary v) = xDictionary"
  "vDictionary (set_Array xArray v) = vDictionary v"
  "vDictionary (set_ID xID v) = vDictionary v"
  "vDictionary (set_NewID xNewID v) = vDictionary v"
  "vDictionary (set_Gen xGen v) = vDictionary v"
  "vDictionary (set_Value xValue v) = vDictionary v"
  "vDictionary (set_Stream xStream v) = vDictionary v"
  "vDictionary (set_Bytes xBytes v) = vDictionary v"
  "vArray (set_Type xType v) = vArray v"
  "vArray (set_String xString v) = vArray v"
  "vArray (set_Token xToken v) = vArray v"
  "vArray (set_Int xInt v) = vArray v"
  "vArray (set_Real xReal v) = vArray v"
  "vArray (set_Bool xBool v) = vArray v"
  "vArray (set_Dictionary xDictionary v) = vArray v"
  "vArray (set_Array xArray v) = xArray"
  "vArray (set_ID xID v) = vArray v"
  "vArray (set_NewID xNewID v) = vArray v"
  "vArray (set_Gen xGen v) = vArray v"
  "vArray (set_Value xValue v) = vArray v"
  "vArray (set_Stream xStream v) = vArray v"
  "vArray (set_Bytes xBytes v) = vArray v"
  "vID (set_Type xType v) = vID v"
  "vID (set_String xString v) = vID v"
  "vID (set_Token xToken v) = vID v"
  "vID (set_Int xInt v) = vID v"
  "vID (set_Real xReal v) = vID v"
  "vID (set_Bool xBool v) = vID v"
  "vID (set_Dictionary xDictionary v) = vID v"
  "vID (set_Array xArray v) = vID v"
  "vID (set_ID xID v) = xID"
  "vID (set_NewID xNewID v) = vID v"
  "vID (set_Gen xGen v) = vID v"
  "vID (set_Value xValue v) = vID v"
  "vID (set_Stream xStream v) = vID v"
  "vID (set_Bytes xBytes v) = vID v"
  "vNewID (set_Type xType v) = vNewID v"
  "vNewID (set_String xString v) = vNewID v"
  "vNewID (set_Token xToken v) = vNewID v"
  "vNewID (set_Int xInt v) = vNewID v"
  "vNewID (set_Real xReal v) = vNewID v"
  "vNewID (set_Bool xBool v) = vNewID v"
  "vNewID (set_Dictionary xDictionary v) = vNewID v"
  "vNewID (set_Array xArray v) = vNewID v"
  "vNewID (set_ID xID v) = vNewID v"
  "vNewID (set_NewID xNewID v) = xNewID"
  "vNewID (set_Gen xGen v) = vNewID v"
  "vNewID (set_Value xValue v) = vNewID v"
  "vNewID (set_Stream xStream v) = vNewID v"
  "vNewID (set_Bytes xBytes v) = vNewID v"
  "vGen (set_Type xType v) = vGen v"
  "vGen (set_String xString v) = vGen v"
  "vGen (set_Token xToken v) = vGen v"
  "vGen (set_Int xInt v) = vGen v"
  "vGen (set_Real xReal v) = vGen v"
  "vGen (set_Bool xBool v) = vGen v"
  "vGen (set_Dictionary xDictionary v) = vGen v"
  "vGen (set_Array xArray v) = vGen v"
  "vGen (set_ID xID v) = vGen v"
  "vGen (set_NewID xNewID v) = vGen v"
  "vGen (set_Gen xGen v) = xGen"
  "vGen (set_Value xValue v) = vGen v"
  "vGen (set_Stream xStream v) = vGen v"
  "vGen (set_Bytes xBytes v) = vGen v"
  "vValue (set_Type xType v) = vValue v"
  "vValue (set_String xString v) = vValue v"
  "vValue (set_Token xToken v) = vValue v"
  "vValue (set_Int xInt v) = vValue v"
  "vValue (set_Real xReal v) = vValue v"
  "vValue (set_Bool xBool v) = vValue v"
  "vValue (set_Dictionary xDictionary v) = vValue v"
  "vValue (set_Array xArray v) = vValue v"
  "vValue (set_ID xID v) = vValue v"
  "vValue (set_NewID xNewID v) = vValue v"
  "vValue (set_Gen xGen v) = vValue v"
  "vValue (set_Value xValue v) = xValue"
  "vValue (set_Stream xStream v) = vValue v"
  "vValue (set_Bytes xBytes v) = vValue v"
  "vStream (set_Type xType v) = vStream v"
  "vStream (set_String xString v) = vStream v"
  "vStream (set_Token xToken v) = vStream v"
  "vStream (set_Int xInt v) = vStream v"
  "vStream (set_Real xReal v) = vStream v"
  "vStream (set_Bool xBool v) = vStream v"
  "vStream (set_Dictionary xDictionary v) = vStream v"
  "vStream (set_Array xArray v) = vStream v"
  "vStream (set_ID xID v) = vStream v"
  "vStream (set_NewID xNewID v) = vStream v"
  "vStream (set_Gen xGen v) = vStream v"
  "vStream (set_Value xValue v) = vStream v"
  "vStream (set_Stream xStream v) = xStream"
  "vStream (set_Bytes xBytes v) = vStream v"
  "vBytes (set_Type xType v) = vBytes v"
  "vBytes (set_String xString v) = vBytes v"
  "vBytes (set_Token xToken v) = vBytes v"
  "vBytes (set_Int xInt v) = vBytes v"
  "vBytes (set_Real xReal v) = vBytes v"
  "vBytes (set_Bool xBool v) = vBytes v"
  "vBytes (set_Dictionary xDictionary v) = vBytes v"
  "vBytes (set_Array xArray v) = vBytes v"
  "vBytes (set_ID xID v) = vBytes v"
  "vBytes (set_NewID xNewID v) = vBytes v"
  "vBytes (set_Gen xGen v) = vBytes v"
  "vBytes (set_Value xValue v) = vBytes v"
  "vBytes (set_Stream xStream v) = vBytes v"
  "vBytes (set_Bytes xBytes v) = xBytes"
  by (case_tac [!] v) simp_all

lemma ebind_InrE:
  assumes "ebind m k s = (Inr y, s')"
  obtains x t where "m s = (Inr x, t)" "k x t = (Inr y, s')"
  using assms by (auto simp: ebind_def split: prod.splits sum.splits)

lemma ewrap_Inr [simp]: "ewrap msg m s = (Inr y, s') \<longleftrightarrow> m s = (Inr y, s')"
  by (auto simp: ewrap_def split: prod.splits sum.splits)

lemma eret_eq [simp]: "eret x s = (Inr y, s') \<longleftrightarrow> x = y \<and> s = s'"
  by (auto simp: eret_def)

lemma efail_Inr [simp]: "efail e s \<noteq> (Inr y, s')"
  by (simp add: efail_def)

lemma elift_Inr [simp]: "elift x s = (Inr y, s') \<longleftrightarrow> x = Inr y \<and> s = s'"
  by (auto simp: elift_def)

lemma with_bufio_InrE:
  assumes "with_bufio r m pr = (Inr y, pr')"
  obtains r' where "m (pr, r) = (Inr y, (pr', r'))"
  using assms by (auto simp: with_bufio_def split: prod.splits)

section \<open>Properties of the Paeth filter and of the row decoding\<close>

lemma and_255_mod: "(x::int) AND 255 = x mod 256"
proof -
  have "x AND mask 8 = take_bit 8 x" by (simp add: take_bit_eq_mask)
  then show ?thesis by (simp add: take_bit_eq_mod mask_eq_exp_minus_1)
qed

lemma abs_go_nonneg: "0 \<le> x \<Longrightarrow> x < 2 ^ 63 \<Longrightarrow> abs_go x = x"
  by (simp add: abs_go_def drop_bit_eq_div)

lemma abs_go_neg: "x < 0 \<Longrightarrow> - (2 ^ 63) \<le> x \<Longrightarrow> abs_go x = - x"
proof -
  assume a: "x < 0" "- (2 ^ 63) \<le> x"
  have m: "drop_bit 63 x = -1" using a by (simp add: drop_bit_eq_div)
  have "x XOR (-1) = - x - 1" by (simp add: not_int_def[symmetric])
  then show ?thesis by (simp add: abs_go_def m)
qed

lemma abs_go_abs: "- (2 ^ 63) \<le> x \<Longrightarrow> x < 2 ^ 63 \<Longrightarrow> abs_go x = \<bar>x\<bar>"
  using abs_go_nonneg abs_go_neg by (cases "0 \<le> x") auto

lemma of_char_bounds: "0 \<le> (of_char c :: int) \<and> (of_char c :: int) < 256"
proof -
  have 1: "0 \<le> (of_char c :: int) mod 256" by (rule pos_mod_sign) simp
  have 2: "(of_char c :: int) mod 256 < 256" by (rule pos_mod_bound) simp
  have e: "(of_char c :: int) mod 256 = of_char c" by (rule of_char_mod_256)
  show ?thesis using 1 2 unfolding e by simp
qed

lemma filterPaeth_row_whole:
  assumes "i < length cdat" "length pdat = length cdat" "length cdat \<le> n"
  shows "filterPaeth_row n pdat i 0 0 cdat = Inr (cdat[i := byte_add (cdat ! i) (pdat ! i)])"
proof -
  let ?b = "of_char (pdat ! i) :: int"
  have b: "0 \<le> ?b" "?b < 256" using of_char_bounds by auto
  have ab: "abs_go ?b = ?b" "abs_go 0 = 0" using b by (auto intro: abs_go_nonneg)
  have stop: "\<And>a c cd. length cd = length cdat \<Longrightarrow> filterPaeth_row n pdat (i + n) a c cd = Inr cd"
    using assms by (subst filterPaeth_row.simps) auto
  show ?thesis
    using assms b ab
    by (subst filterPaeth_row.simps) (auto simp: Let_def stop byte_add_def)
qed


lemma filterPaeth_cols_whole:
  assumes "k \<le> n" "length cdat = n" "length pdat = n"
  shows "filterPaeth_cols [k..<n] n pdat cdat
         = Inr (take k cdat @ map2 byte_add (drop k cdat) (drop k pdat))"
  using assms
proof (induction "n - k" arbitrary: k cdat)
  case 0
  then show ?case by simp
next
  case (Suc d)
  then have k: "k < n" by simp
  let ?cdat' = "cdat[k := byte_add (cdat ! k) (pdat ! k)]"
  have row: "filterPaeth_row n pdat k 0 0 cdat = Inr ?cdat'"
    using k Suc.prems by (intro filterPaeth_row_whole) auto
  have ih: "filterPaeth_cols [Suc k..<n] n pdat ?cdat'
            = Inr (take (Suc k) ?cdat' @ map2 byte_add (drop (Suc k) ?cdat') (drop (Suc k) pdat))"
    using Suc.hyps(1)[of "Suc k" ?cdat'] Suc.hyps(2) k Suc.prems by simp
  have t: "take (Suc k) ?cdat' = take k cdat @ [byte_add (cdat ! k) (pdat ! k)]"
    using k Suc.prems by (simp add: take_Suc_conv_app_nth)
  have d: "drop k cdat = cdat ! k # drop (Suc k) cdat" "drop k pdat = pdat ! k # drop (Suc k) pdat"
    using k Suc.prems by (simp_all add: Cons_nth_drop_Suc)
  show ?case
    using k by (simp add: upt_conv_Cons row ih t d)
qed

lemma filterPaeth_whole:
  assumes "length pdat = length cdat"
  shows "filterPaeth cdat pdat (int (length cdat)) = Inr (map2 byte_add cdat pdat)"
  using filterPaeth_cols_whole[of 0 "length cdat" cdat pdat] assms
  by (simp add: filterPaeth_def)

lemma byte_add_sub: "byte_add (byte_sub x (of_char b)) b = x"
proof -
  have "(of_char b + (of_char x - of_char b) mod 256) mod 256 = (of_char x :: int) mod 256"
    by (simp add: mod_add_right_eq)
  then have "char_of ((of_char b + (of_char x - of_char b) mod 256) mod (256::int)) = char_of ((of_char x :: int) mod 256)"
    by (rule arg_cong)
  then show ?thesis
    by (simp add: byte_add_def byte_sub_def and_255_mod of_char_of)
qed

lemma map2_byte_add_sub:
  "length row = length prior \<Longrightarrow>
   map2 byte_add (map2 (\<lambda>x b. byte_sub x (of_char b)) row prior) prior = row"
  by (induction row prior rule: list_induct2) (simp_all add: byte_add_sub)

lemma decodedRows_up:
  assumes "\<forall>row\<in>set rows. length row = n" "length prior = n"
  shows "decodedRows True (Suc n) (png_up_encode prior rows) (t # prior)
         = Inr (map (\<lambda>row. row @ [CHR 0x00]) rows)"
  using assms
proof (induction rows arbitrary: prior t)
  case Nil
  then show ?case by (simp add: decodedRows.simps)
next
  case (Cons row rows)
  let ?enc = "map2 (\<lambda>x b. byte_sub x (of_char b)) row prior"
  have len: "length row = n" "length ?enc = n" using Cons.prems by simp_all
  have fp: "filterPaeth (CHR 0x02 # ?enc) (t # prior) (int (Suc n))
            = Inr (byte_add (CHR 0x02) t # row)"
    using filterPaeth_whole[of "t # prior" "CHR 0x02 # ?enc"] len Cons.prems
    by (simp add: map2_byte_add_sub)
  have dec: "decodeXrefRow True (Suc n) (CHR 0x02 # ?enc) (t # prior)
             = Inr (byte_add (CHR 0x02) t # row, row @ [CHR 0x00])"
    unfolding decodeXrefRow_def fp using len by simp
  have ih: "decodedRows True (Suc n) (png_up_encode row rows) (byte_add (CHR 0x02) t # row)
            = Inr (map (\<lambda>row. row @ [CHR 0x00]) rows)"
    using Cons.IH[of row] Cons.prems len by simp
  show ?case
    using len by (subst decodedRows.simps) (simp add: dec ih)
qed

lemma xrefStreamRows_decoded:
  "decodedRows paethDecode fieldSize p prevRow = Inr rows \<Longrightarrow>
   xrefStreamRows paethDecode firstFieldSize middleFieldSize fieldSize p prevRow i pr
   = recordXrefRows firstFieldSize middleFieldSize rows i pr"
proof (induction paethDecode fieldSize p prevRow arbitrary: rows i pr rule: decodedRows.induct)
  case (1 paethDecode fieldSize p prevRow)
  show ?case
  proof (cases "fieldSize = 0 \<or> p = [] \<or> length p < fieldSize")
    case True
    then show ?thesis using "1.prems"
      by (subst xrefStreamRows.simps) (auto simp: decodedRows.simps[of paethDecode fieldSize p prevRow])
  next
    case False
    then obtain prevRow' objectData rest where
      d: "decodeXrefRow paethDecode fieldSize (take fieldSize p) prevRow = Inr (prevRow', objectData)"
      and r: "decodedRows paethDecode fieldSize (drop fieldSize p) prevRow' = Inr rest"
      and rows: "rows = objectData # rest"
      using "1.prems"
      by (auto simp: decodedRows.simps[of paethDecode fieldSize p prevRow] split: sum.splits)
    show ?thesis
      using False d r rows "1.IH"[OF _ _ _ d refl r]
      by (subst xrefStreamRows.simps) (auto split: sum.splits)
  qed
qed


text \<open>
  What the loop does invert. \<^verbatim>\<open>readXref\<close> calls \<^verbatim>\<open>filterPaeth(result, prevRow, fieldSize)\<close>
  with the length of the whole row (tag byte and data columns) as \<^verbatim>\<open>bytesPerPixel\<close>, so
  the bytes to the left and to the upper left are always 0 and every byte is rebuilt as
  (encoded byte + byte above) modulo 256. For a byte matrix with \<open>n\<close> data columns that is
  encoded with PNG Up prediction, the rows \<^verbatim>\<open>objectData\<close> of the xref-stream loop are the
  original rows, each followed by the one padding byte of the \<^verbatim>\<open>fieldSize\<close>-byte buffer.
  (The bytes \<open>p\<close> are what inflating the stream gives.)
\<close>

lemma xref_rows_up_roundtrip:
  assumes "\<forall>row\<in>set rows. length row = n"
  shows "decodedRows True (Suc n) (png_up_encode (replicate n (CHR 0x00)) rows)
           (replicate (Suc n) (CHR 0x00))
         = Inr (map (\<lambda>row. row @ [CHR 0x00]) rows)"
  using decodedRows_up[of rows n "replicate n (CHR 0x00)" "CHR 0x00"] assms
  by (simp add: replicate_Suc[symmetric] del: replicate_Suc)

lemma byte_restore: "char_of ((pred + of_char (byte_sub x pred)) AND (255::int)) = x"
proof -
  have "(pred + (of_char x - pred) mod 256) mod 256 = (of_char x :: int) mod 256"
    by (simp add: mod_add_right_eq)
  then have "char_of ((pred + (of_char x - pred) mod 256) mod (256::int)) = char_of ((of_char x :: int) mod 256)"
    by (rule arg_cong)
  then show ?thesis
    by (simp add: byte_sub_def and_255_mod of_char_of)
qed

lemma byte_restore_int: "(pred + of_char (byte_sub x pred)) AND (255::int) = of_char x"
proof -
  have "(pred + (of_char x - pred) mod 256) mod 256 = (of_char x :: int) mod 256"
    by (simp add: mod_add_right_eq)
  then show ?thesis
    by (simp add: byte_sub_def and_255_mod of_char_of of_char_mod_256)
qed

lemma filterPaeth_row_step:
  assumes "j < length cdat" "j < length pdat" "0 < bpp"
    and "0 \<le> a" "a < 256" "0 \<le> c" "c < 256"
  shows "filterPaeth_row bpp pdat j a c cdat
         = filterPaeth_row bpp pdat (j + bpp)
             ((PaethPredictor a (of_char (pdat ! j)) c + of_char (cdat ! j)) AND 255)
             (of_char (pdat ! j))
             (cdat[j := char_of ((PaethPredictor a (of_char (pdat ! j)) c + of_char (cdat ! j)) AND 255)])"
proof -
  let ?b = "of_char (pdat ! j) :: int"
  have b: "0 \<le> ?b" "?b < 256" using of_char_bounds by auto
  have 1: "abs_go (?b - c) = \<bar>?b - c\<bar>" using b assms by (intro abs_go_abs) auto
  have 2: "abs_go (a - c) = \<bar>a - c\<bar>" using b assms by (intro abs_go_abs) auto
  have 3: "abs_go (?b - c + (a - c)) = \<bar>?b - c + (a - c)\<bar>" using b assms by (intro abs_go_abs) auto
  have e: "a + ?b - c - a = ?b - c" "a + ?b - c - ?b = a - c" "a + ?b - c - c = ?b - c + (a - c)" by auto
  have sel: "(if abs_go (?b - c) \<le> abs_go (a - c) \<and> abs_go (?b - c) \<le> abs_go (?b - c + (a - c)) then a
              else if abs_go (a - c) \<le> abs_go (?b - c + (a - c)) then ?b else c)
             = PaethPredictor a ?b c"
    unfolding 1 2 3 PaethPredictor_def Let_def e by simp
  have c: "(j < length cdat \<and> 0 < bpp) = True" "(length pdat \<le> j) = False" using assms by auto
  show ?thesis
    by (subst filterPaeth_row.simps) (simp only: c if_True if_False Let_def sel)
qed

lemma filterPaeth_row_one:
  assumes "length row = length prior" "length dn = length pdn"
    and "0 \<le> a" "a < 256" "0 \<le> c" "c < 256"
  shows "filterPaeth_row 1 (pdn @ prior) (length dn) a c (dn @ png_paeth_encode_row a c row prior)
         = Inr (dn @ row)"
  using assms
proof (induction row prior arbitrary: dn pdn a c rule: list_induct2)
  case Nil
  then show ?case by (subst filterPaeth_row.simps) simp
next
  case (Cons x xs b bs)
  let ?b = "of_char b :: int"
  have b: "0 \<le> ?b" "?b < 256" using of_char_bounds by auto
  let ?p = "PaethPredictor a ?b c"
  have x: "0 \<le> (of_char x :: int)" "(of_char x :: int) < 256" using of_char_bounds by auto
  have ih: "filterPaeth_row 1 ((pdn @ [b]) @ bs) (length (dn @ [x])) (of_char x) ?b
              ((dn @ [x]) @ png_paeth_encode_row (of_char x) ?b xs bs) = Inr ((dn @ [x]) @ xs)"
    using Cons.prems x b by (intro Cons.IH) auto
  have st: "filterPaeth_row 1 (pdn @ b # bs) (length dn) a c
              (dn @ png_paeth_encode_row a c (x # xs) (b # bs))
            = filterPaeth_row 1 (pdn @ b # bs) (length dn + 1) (of_char x) ?b
                (dn @ x # png_paeth_encode_row (of_char x) ?b xs bs)"
    using Cons.prems
    by (subst filterPaeth_row_step) (simp_all add: nth_append byte_restore byte_restore_int list_update_append)
  show ?case using ih unfolding st by simp
qed

text \<open>
  \<^verbatim>\<open>filterPaeth\<close> itself follows the PNG definition: called on the data columns with
  \<^verbatim>\<open>bytesPerPixel = 1\<close> it restores every row from its PNG Paeth encoding.
\<close>

lemma filterPaeth_one:
  assumes "length row = length prior"
  shows "filterPaeth (png_paeth_encode_row 0 0 row prior) prior 1 = Inr row"
  using filterPaeth_row_one[of row prior "[]" "[]" 0 0] assms
  by (simp add: filterPaeth_def)

text \<open>
  Claim C5 (Paeth round-trip) does not hold of the code. The one-row matrix \<open>01 00 0A 00\<close>
  (an in-use entry at offset 10, generation 0) is encoded with PNG Paeth prediction as
  the row \<open>04 01 FF 0A F6\<close>. The xref-stream loop, which hands the row with its tag byte
  to \<^verbatim>\<open>filterPaeth\<close> and the length of the row as \<^verbatim>\<open>bytesPerPixel\<close>, decodes it to
  \<open>01 FF 0A F6\<close> and records offset 65290 under generation 246 for object 0, and nothing
  under generation 0. \<^verbatim>\<open>filterPaeth\<close> on the data columns with one byte per pixel gives
  the original row.
\<close>

theorem xref_rows_paeth_failing_input:
  "png_paeth_encode (replicate 4 (CHR 0x00)) [[CHR 0x01, CHR 0x00, CHR 0x0A, CHR 0x00]]
     = [CHR 0x04, CHR 0x01, CHR 0xFF, CHR 0x0A, CHR 0xF6]
   \<and> decodedRows True 5 [CHR 0x04, CHR 0x01, CHR 0xFF, CHR 0x0A, CHR 0xF6] (replicate 5 (CHR 0x00))
     = Inr [[CHR 0x01, CHR 0xFF, CHR 0x0A, CHR 0xF6, CHR 0x00]]
   \<and> (case xrefStreamRows True 1 2 5 [CHR 0x04, CHR 0x01, CHR 0xFF, CHR 0x0A, CHR 0xF6]
             (replicate 5 (CHR 0x00)) 0 (exampleReader [] Map.empty) of
         Inl e \<Rightarrow> None
       | Inr pr \<Rightarrow> map_option (\<lambda>gens. (gens 0, gens 246)) (xref pr 0))
     = Some (None, Some 65290)
   \<and> filterPaeth [CHR 0x01, CHR 0xFF, CHR 0x0A, CHR 0xF6] (replicate 4 (CHR 0x00)) 1
     = Inr [CHR 0x01, CHR 0x00, CHR 0x0A, CHR 0x00]"
  by code_simp

section \<open>Properties of object resolution\<close>

lemma resolveCompressedObject_Type:
  assumes "resolveCompressedObject n self objSpec pr = (Inr v, pr')"
  shows "vType v = PDFTypeObject"
  using assms unfolding resolveCompressedObject_def
  by (auto split: option.splits if_splits prod.splits elim!: ebind_InrE with_bufio_InrE)

lemma readObject_Type:
  assumes "readObject n self objSpec s = (Inr v, s')"
  shows "vType v = PDFTypeObject \<or> vType v = PDFTypeStream"
  using assms unfolding readObject_def
  by (auto split: option.splits if_splits prod.splits elim!: ebind_InrE simp: Let_def)

lemma ResolveObject_Type:
  assumes "ResolveObject n objSpec pr = (Inr v, pr')"
  shows "vType v \<noteq> PDFTypeObjRef"
proof (cases n)
  case 0
  then show ?thesis using assms by simp
next
  case (Suc k)
  show ?thesis
  proof (cases "vType objSpec \<noteq> PDFTypeObjRef")
    case True
    then show ?thesis using assms Suc by simp
  next
    case False
    show ?thesis
    proof (cases "xref pr (vID objSpec)")
      case None
      then have "resolveCompressedObject k (ResolveObject k) objSpec pr = (Inr v, pr')"
        using assms Suc False by simp
      from resolveCompressedObject_Type[OF this] show ?thesis by (simp add: PDFType_defs)
    next
      case (Some gens)
      then obtain s r' where "readObject k (ResolveObject k) objSpec s = (Inr v, r')"
        using assms Suc False
        by (auto simp: Let_def elim!: ebind_InrE with_bufio_InrE)
      from readObject_Type[OF this] show ?thesis by (auto simp: PDFType_defs)
    qed
  qed
qed


text \<open>
  Claim C7. When \<^verbatim>\<open>ResolveObject\<close> returns an object without error, that object never
  has the indirect-reference type (it is the argument itself when that is no reference,
  and otherwise an object of type \<^verbatim>\<open>PDFTypeObject\<close> or \<^verbatim>\<open>PDFTypeStream\<close>). Resolving it
  again therefore returns it unchanged and leaves the reader as it is:
  \<^verbatim>\<open>ResolveObject(ResolveObject(r)) = ResolveObject(r)\<close>.
\<close>

theorem ResolveObject_idempotent:
  assumes "ResolveObject n r pr = (Inr v, pr')"
  shows "ResolveObject (Suc m) v pr' = (Inr v, pr')"
  using ResolveObject_Type[OF assms] by simp

theorem ResolveObject_idempotent_witness:
  "\<exists>v. fst (ResolveObject 10 (objRef 1 0) (exampleReader exampleObject [1 \<mapsto> [0 \<mapsto> 0]])) = Inr v
     \<and> ResolveObject 1 v (snd (ResolveObject 10 (objRef 1 0) (exampleReader exampleObject [1 \<mapsto> [0 \<mapsto> 0]])))
       = (Inr v, snd (ResolveObject 10 (objRef 1 0) (exampleReader exampleObject [1 \<mapsto> [0 \<mapsto> 0]])))"
proof -
  let ?X = "ResolveObject 10 (objRef 1 0) (exampleReader exampleObject [1 \<mapsto> [0 \<mapsto> 0]])"
  have "case fst ?X of Inr v \<Rightarrow> True | Inl e \<Rightarrow> False" by code_simp
  then obtain v where v: "fst ?X = Inr v" by (cases "fst ?X") auto
  then have "?X = (Inr v, snd ?X)" by (metis prod.collapse)
  from ResolveObject_idempotent[OF this, of 0] v show ?thesis by auto
qed

subsection \<open>The seek position\<close>

text \<open>\<open>mstep s s'\<close>: a step from \<open>s\<close> to \<open>s'\<close> that, when the \<^verbatim>\<open>bufio.Reader\<close> is over bytes
  in memory, leaves it so and does not move the file's seek position.\<close>

definition mstep :: "io \<Rightarrow> io \<Rightarrow> bool" where
  "mstep s s' \<longleftrightarrow> (\<not> fromFile (snd s) \<longrightarrow> \<not> fromFile (snd s') \<and> fpos (fst s') = fpos (fst s))"

definition mframe :: "(io \<Rightarrow> 'a \<times> io) \<Rightarrow> bool" where
  "mframe m \<longleftrightarrow> (\<forall>s. mstep s (snd (m s)))"

lemma mstep_refl [simp]: "mstep s s" by (simp add: mstep_def)

lemma mstep_trans: "mstep s t \<Longrightarrow> mstep t u \<Longrightarrow> mstep s u" by (auto simp: mstep_def)


lemma mframeI:
  assumes "\<And>s x s'. m s = (x, s') \<Longrightarrow> mstep s s'"
  shows "mframe m"
  unfolding mframe_def
proof
  fix s show "mstep s (snd (m s))" by (rule assms[of s "fst (m s)"]) simp
qed




lemma ReadByte_mstep: "ReadByte s = (x, s') \<Longrightarrow> mstep s s'"
proof (cases "fromFile (snd s)")
  case True
  then show ?thesis by (simp add: mstep_def)
next
  case False
  assume r: "ReadByte s = (x, s')"
  obtain pr r0 where s: "s = (pr, r0)" by (cases s)
  have f: "fill (pr, r0) = (pr, r0)" using False s by (simp add: fill_def)
  show ?thesis using r False unfolding ReadByte_def s
    by (cases "buf r0") (auto simp: mstep_def f)
qed

lemma mframe_ReadByte [intro!]: "mframe ReadByte"
  by (rule mframeI) (rule ReadByte_mstep)

lemma mstep_UnreadByte: "mstep s (UnreadByte s)"
  by (cases s) (auto simp: UnreadByte_def mstep_def split: option.splits)

lemma mstep_UnreadByte': "mstep s t \<Longrightarrow> mstep s (UnreadByte t)"
  using mstep_UnreadByte mstep_trans by blast


lemma skipComments_mstep: "skipComments s = (x, s') \<Longrightarrow> mstep s s'"
proof (induction s arbitrary: x s' rule: skipComments.induct)
  case (1 s)
  obtain y s1 where rb: "ReadByte s = (y, s1)" by (cases "ReadByte s") auto
  have m1: "mstep s s1" using rb by (rule ReadByte_mstep)
  show ?case
  proof (cases y)
    case (Inl e)
    then show ?thesis using "1.prems" rb m1 by (subst (asm) skipComments.simps) auto
  next
    case (Inr b)
    show ?thesis
    proof (cases "b = CHR 0x0A \<or> b = CHR 0x0D")
      case False
      then have "skipComments s1 = (x, s')"
        using "1.prems" rb Inr by (subst (asm) skipComments.simps) auto
      then have "mstep s1 s'" using "1.IH" rb Inr False by auto
      then show ?thesis using m1 mstep_trans by blast
    next
      case True
      obtain z s2 where rb2: "ReadByte s1 = (z, s2)" by (cases "ReadByte s1") auto
      have m2: "mstep s1 s2" using rb2 by (rule ReadByte_mstep)
      have "s' = s1 \<or> s' = s2 \<or> s' = UnreadByte s2"
        using "1.prems" rb Inr True rb2
        by (subst (asm) skipComments.simps) (auto split: sum.splits if_splits)
      then show ?thesis using m1 m2 mstep_UnreadByte' mstep_trans by blast
    qed
  qed
qed


lemma skipWhitespace_mstep: "skipWhitespace s = (x, s') \<Longrightarrow> mstep s s'"
proof (induction s arbitrary: x s' rule: skipWhitespace.induct)
  case (1 s)
  obtain y s1 where rb: "ReadByte s = (y, s1)" by (cases "ReadByte s") auto
  have m1: "mstep s s1" using rb by (rule ReadByte_mstep)
  show ?case
  proof (cases y)
    case (Inl e)
    then have "s' = s1" using "1.prems" rb by (subst (asm) skipWhitespace.simps) (auto split: if_splits)
    then show ?thesis using m1 by simp
  next
    case (Inr b)
    show ?thesis
    proof (cases "b = CHR '' '' \<or> b = CHR 0x0A \<or> b = CHR 0x0D \<or> b = CHR 0x09")
      case True
      then have "skipWhitespace s1 = (x, s')"
        using "1.prems" rb Inr by (subst (asm) skipWhitespace.simps) auto
      then have "mstep s1 s'" using "1.IH" rb Inr True by auto
      with m1 show ?thesis by (rule mstep_trans)
    next
      case False
      then have "s' = UnreadByte s1"
        using "1.prems" rb Inr by (subst (asm) skipWhitespace.simps) auto
      then show ?thesis using m1 mstep_UnreadByte' by simp
    qed
  qed
qed

lemma tokenRest_mstep: "tokenRest str s = (x, s') \<Longrightarrow> mstep s s'"
proof (induction str s arbitrary: x s' rule: tokenRest.induct)
  case (1 str s)
  obtain y s1 where rb: "ReadByte s = (y, s1)" by (cases "ReadByte s") auto
  have m1: "mstep s s1" using rb by (rule ReadByte_mstep)
  show ?case
  proof (cases y)
    case (Inl e)
    then have "s' = s1" using "1.prems" rb by (subst (asm) tokenRest.simps) auto
    then show ?thesis using m1 by simp
  next
    case (Inr b)
    show ?thesis
    proof (cases "b \<in> set tokenDelimiters")
      case False
      then have "tokenRest (str @ string_of_byte b) s1 = (x, s')"
        using "1.prems" rb Inr by (subst (asm) tokenRest.simps) auto
      then have "mstep s1 s'" using "1.IH" rb Inr False by auto
      with m1 show ?thesis by (rule mstep_trans)
    next
      case True
      then have "s' = UnreadByte s1"
        using "1.prems" rb Inr by (subst (asm) tokenRest.simps) auto
      then show ?thesis using m1 mstep_UnreadByte' by simp
    qed
  qed
qed



lemma mframe_skipWhitespace [intro!]: "mframe skipWhitespace"
  by (rule mframeI) (rule skipWhitespace_mstep)
lemma mframe_skipComments [intro!]: "mframe skipComments"
  by (rule mframeI) (rule skipComments_mstep)
lemma mframe_tokenRest [intro!]: "mframe (tokenRest str)"
  by (rule mframeI) (rule tokenRest_mstep)




lemma mframe_case_sum [intro!]:
  "(\<And>e. x = Inl e \<Longrightarrow> mframe (f e)) \<Longrightarrow> (\<And>v. x = Inr v \<Longrightarrow> mframe (g v)) \<Longrightarrow> mframe (case x of Inl e \<Rightarrow> f e | Inr v \<Rightarrow> g v)"
  by (cases x) auto























section \<open>Properties of the page queries\<close>

text \<open>
  Claim C10. For a valid page number (from 1 to the number of pages) whose page object
  has a dictionary without the key \<^verbatim>\<open>/Contents\<close>, \<^verbatim>\<open>GetContent\<close> returns the empty string
  and no error, and leaves the reader as it is.
\<close>

theorem GetContent_without_Contents:
  assumes "1 \<le> pageno" "pageno \<le> int (length (pages pr))"
    and "pages pr ! nat (pageno - 1) = Some page" "vValue page = Some v"
    and "map_of (vDictionary v) ''/Contents'' = None"
  shows "GetContent n pageno pr = (Inr [], pr)"
  using assms
  by (simp add: GetContent_def ebind_def pageAt_def elift_def valueDictionary_def eret_def)

theorem GetContent_without_Contents_witness:
  "GetContent 0 1 (onePageReader [(''/MediaBox'', letterBox)])
   = (Inr [], onePageReader [(''/MediaBox'', letterBox)])"
  by (rule GetContent_without_Contents[where page = "objectValue 3 (dictValue [(''/MediaBox'', letterBox)])"
        and v = "dictValue [(''/MediaBox'', letterBox)]"])
     (simp_all add: onePageReader_def exampleReader_def objectValue_def dictValue_def)


section \<open>Properties of importing a page\<close>






lemma on_r_tpls: "on_r m pw = (x, pw') \<Longrightarrow> tpls pw' = tpls pw"
  by (auto simp: on_r_def split: option.splits prod.splits)

lemma GetPDFBoxDimensions_tpls:
  assumes "GetPDFBoxDimensions n p b pw = (Inr x, pw')"
  shows "tpls pw' = tpls pw"
proof -
  from assms obtain numPages pw1 where 1: "on_r GetNumPages pw = (Inr numPages, pw1)"
    and 2: "(if p > numPages then efail (Errorf ''cannot get the page number of the PDF'')
     else
     ebind (on_r (GetAllPageBoxes n 1)) (\<lambda>pb.
     let bx = pageBox pb p b in
     if boxLen bx = 0 then
       if b = ''/CropBox'' then eret (pageBox pb p ''/MediaBox'')
       else if b = ''/ArtBox'' \<or> b = ''/BleedBox'' \<or> b = ''/TrimBox''
       then eret (pageBox pb p ''/CropBox'')
       else efail (Errorf ''could not find the box dimensions for the image'')
     else if b = ''/MediaBox'' then eret bx
     else (\<lambda>pw. (Inr (Some (intersectBox (round64w pw) (the_default [] bx)
                               (the_default [] (pageBox pb p ''/MediaBox'')))), pw)))) pw1 = (Inr x, pw')"
    unfolding GetPDFBoxDimensions_def by (rule ebind_InrE)
  from 2 obtain pb pw2 where 3: "on_r (GetAllPageBoxes n 1) pw1 = (Inr pb, pw2)" and 4: "pw' = pw2"
    by (auto split: if_splits elim!: ebind_InrE simp: Let_def)
  show ?thesis using on_r_tpls[OF 1] on_r_tpls[OF 3] 4 by simp
qed

lemma ImportPage_stores:
  assumes "ImportPage n rd pageno boxName pw = (Inr k, pw')"
  shows "\<exists>rot t. tRotation t = 0 \<and> k = int (length (tpls pw))
           \<and> tpls pw' = tpls pw @ [Some (normalizeRotation rot t)]"
proof -
  from assms obtain res pw1 content pw2 bx pw3 rot0 pw4 rot where
    1: "on_r (GetPageResources n pageno) (pw\<lparr>rdr := Some rd\<rparr>) = (Inr res, pw1)" and
    2: "on_r (GetContent n pageno) pw1 = (Inr content, pw2)" and
    3: "GetPDFBoxDimensions n pageno boxName pw2 = (Inr bx, pw3)" and
    4: "on_r (GetPageRotation n pageno) pw3 = (Inr rot0, pw4)" and
    5: "k = int (length (tpls pw4))" and
    6: "pw' = pw4\<lparr>tpls := tpls pw4 @ [Some (normalizeRotation (vInt rot)
          \<lparr>tResources = res, tBuffer = content, tBox = bx, tX = 0, tY = 0,
           tW = tplBoxGet bx ''w'', tH = tplBoxGet bx ''h'', tRotation = 0, tN = 0\<rparr>)]\<rparr>"
    unfolding ImportPage_def Let_def
    by (elim ebind_InrE) (auto split: if_splits)
  have "tpls pw4 = tpls pw"
    using on_r_tpls[OF 1] on_r_tpls[OF 2] GetPDFBoxDimensions_tpls[OF 3] on_r_tpls[OF 4] by simp
  then show ?thesis using 5 6 by (intro exI[of _ "vInt rot"] exI[of _ "\<lparr>tResources = res, tBuffer = content, tBox = bx, tX = 0, tY = 0,
           tW = tplBoxGet bx ''w'', tH = tplBoxGet bx ''h'', tRotation = 0, tN = 0\<rparr>"]) simp
qed






lemma Importer_ImportPage_records:
  assumes "Importer_ImportPage n p bx imp = (Inr t, imp1)"
  shows "importedPages imp1 p = Some t"
  using assms unfolding Importer_ImportPage_def
  by (auto split: option.splits prod.splits sum.splits)

lemma Importer_ImportPage_keeps:
  assumes "importedPages imp p = Some t"
  shows "importedPages (snd (Importer_ImportPage n q bx imp)) p = Some t"
  using assms unfolding Importer_ImportPage_def
  by (auto split: option.splits prod.splits sum.splits)

lemma Importer_ImportPages_keeps:
  assumes "importedPages imp p = Some t"
  shows "importedPages (Importer_ImportPages n calls imp) p = Some t"
  using assms
proof (induction calls arbitrary: imp)
  case Nil
  then show ?case by simp
next
  case (Cons c calls)
  obtain q bx where c: "c = (q, bx)" by (cases c)
  show ?case using Cons.IH[OF Importer_ImportPage_keeps[OF Cons.prems]] by (simp add: c)
qed


text \<open>
  Claim C9. Once \<^verbatim>\<open>Importer.ImportPage(p, box)\<close> has succeeded with template number
  \<open>t\<close>, a later call for the same page number, after any further calls of
  \<^verbatim>\<open>Importer.ImportPage\<close> and with any box name, returns \<open>t\<close> and leaves the importer
  unchanged: no template is appended and the template counter stays (the cache is keyed
  by the page number alone).
\<close>

theorem Importer_ImportPage_cached:
  assumes "Importer_ImportPage n p bx imp = (Inr t, imp1)"
  shows "Importer_ImportPage m p bx' (Importer_ImportPages k calls imp1)
         = (Inr t, Importer_ImportPages k calls imp1)"
  using Importer_ImportPages_keeps[OF Importer_ImportPage_records[OF assms]]
  by (simp add: Importer_ImportPage_def)


theorem Importer_ImportPage_cached_witness:
  "Importer_ImportPage 0 1 ''/CropBox''
     (Importer_ImportPages 5 [(1, ''/BleedBox'')]
        (snd (Importer_ImportPage 5 1 ''/MediaBox''
               (exampleImporter (onePageReader [(''/MediaBox'', letterBox)])))))
   = (Inr 0,
      Importer_ImportPages 5 [(1, ''/BleedBox'')]
        (snd (Importer_ImportPage 5 1 ''/MediaBox''
               (exampleImporter (onePageReader [(''/MediaBox'', letterBox)])))))"
proof -
  let ?X = "Importer_ImportPage 5 1 ''/MediaBox''
              (exampleImporter (onePageReader [(''/MediaBox'', letterBox)]))"
  have "fst ?X = Inr 0" by code_simp
  then have "?X = (Inr 0, snd ?X)" by (metis prod.collapse)
  from Importer_ImportPage_cached[OF this] show ?thesis .
qed

section \<open>The box of a page\<close>

text \<open>
  Claim C3 at a page that has a \<^verbatim>\<open>/MediaBox\<close> only: asked for \<^verbatim>\<open>/BleedBox\<close>,
  \<^verbatim>\<open>GetPDFBoxDimensions\<close> falls back to \<^verbatim>\<open>pb[p]["/CropBox"]\<close> without looking whether that
  is empty, and returns the empty map and no error, not the media box; asked for
  \<^verbatim>\<open>/CropBox\<close> it returns the media box.
\<close>

theorem GetPDFBoxDimensions_BleedBox_MediaBox_only:
  "fst (GetPDFBoxDimensions 5 1 ''/BleedBox''
          (exampleWriter\<lparr>rdr := Some (onePageReader [(''/MediaBox'', letterBox)])\<rparr>))
   = Inr (Some [])
   \<and> fst (GetPDFBoxDimensions 5 1 ''/CropBox''
          (exampleWriter\<lparr>rdr := Some (onePageReader [(''/MediaBox'', letterBox)])\<rparr>))
   = fst (GetPDFBoxDimensions 5 1 ''/MediaBox''
          (exampleWriter\<lparr>rdr := Some (onePageReader [(''/MediaBox'', letterBox)])\<rparr>))
   \<and> fst (GetPDFBoxDimensions 5 1 ''/MediaBox''
          (exampleWriter\<lparr>rdr := Some (onePageReader [(''/MediaBox'', letterBox)])\<rparr>))
   \<noteq> Inr (Some [])"
  by code_simp

end
